theory Spec2Isabelle
  imports Main
begin

section \<open>JavaScript values, objects and errors\<close>

text \<open>
  Values of type \<^verbatim>\<open>unknown\<close> (tool arguments, list items, responses). Numbers are
  modelled as integers: every number the manager itself computes with (timeouts,
  attempt counts, the id counter) is an integer. An object is an association list
  in property order.
\<close>

datatype JsVal =
    JUndefined
  | JNull
  | JBool bool
  | JNum int
  | JStr string
  | JArr "JsVal list"
  | JObj "(string \<times> JsVal) list"

type_synonym JsObject = "(string \<times> JsVal) list"

text \<open>\<^verbatim>\<open>obj.key\<close>: a missing property reads as \<^verbatim>\<open>undefined\<close>.\<close>

definition getProp :: "JsObject \<Rightarrow> string \<Rightarrow> JsVal" where
  "getProp obj k = (case map_of obj k of None \<Rightarrow> JUndefined | Some v \<Rightarrow> v)"

text \<open>\<^verbatim>\<open>obj.key = v\<close>: an existing property keeps its place, a new one is appended.\<close>

fun setProp :: "string \<Rightarrow> JsVal \<Rightarrow> JsObject \<Rightarrow> JsObject" where
  "setProp k v [] = [(k, v)]"
| "setProp k v ((k', v') # rest) =
     (if k' = k then (k, v) # rest else (k', v') # setProp k v rest)"

text \<open>\<^verbatim>\<open>{ ...a, ...b }\<close>\<close>

definition spread :: "JsObject \<Rightarrow> JsObject \<Rightarrow> JsObject" where
  "spread a b = fold (\<lambda>(k, v) acc. setProp k v acc) b a"

text \<open>Truthiness, as tested by \<^verbatim>\<open>if (x)\<close>, \<^verbatim>\<open>!x\<close> and \<^verbatim>\<open>x || y\<close>.\<close>

fun truthy :: "JsVal \<Rightarrow> bool" where
  "truthy JUndefined = False"
| "truthy JNull = False"
| "truthy (JBool b) = b"
| "truthy (JNum n) = (n \<noteq> 0)"
| "truthy (JStr s) = (s \<noteq> [])"
| "truthy (JArr xs) = True"
| "truthy (JObj ps) = True"

text \<open>An optional number \<^verbatim>\<open>timeout?: number\<close> is \<open>None\<close> when undefined.\<close>

definition optNum :: "int option \<Rightarrow> JsVal" where
  "optNum t = (case t of None \<Rightarrow> JUndefined | Some n \<Rightarrow> JNum n)"

definition truthyNum :: "int option \<Rightarrow> bool" where
  "truthyNum t = truthy (optNum t)"

text \<open>\<^verbatim>\<open>a || b\<close> on optional numbers.\<close>

definition orNum :: "int option \<Rightarrow> int option \<Rightarrow> int option" where
  "orNum a b = (if truthyNum a then a else b)"

definition truthyBool :: "bool option \<Rightarrow> bool" where
  "truthyBool b = (case b of None \<Rightarrow> False | Some v \<Rightarrow> v)"

subsection \<open>Decimal rendering\<close>

definition digitChar :: "nat \<Rightarrow> char" where
  "digitChar d = ''0123456789'' ! d"

fun natDigits :: "nat \<Rightarrow> string" where
  "natDigits n = (if n < 10 then [digitChar n] else natDigits (n div 10) @ [digitChar (n mod 10)])"

declare natDigits.simps [simp del]

definition intDigits :: "int \<Rightarrow> string" where
  "intDigits i = (if i < 0 then ''-'' @ natDigits (nat (- i)) else natDigits (nat i))"

fun joinComma :: "string list \<Rightarrow> string" where
  "joinComma [] = []"
| "joinComma [x] = x"
| "joinComma (x # y # rest) = x @ '','' @ joinComma (y # rest)"

text \<open>\<^verbatim>\<open>String(v)\<close>\<close>

fun jsString :: "JsVal \<Rightarrow> string"
  and jsElements :: "JsVal list \<Rightarrow> string list" where
  "jsString JUndefined = ''undefined''"
| "jsString JNull = ''null''"
| "jsString (JBool b) = (if b then ''true'' else ''false'')"
| "jsString (JNum n) = intDigits n"
| "jsString (JStr s) = s"
| "jsString (JArr xs) = joinComma (jsElements xs)"
| "jsString (JObj ps) = ''[object Object]''"
| "jsElements [] = []"
| "jsElements (JUndefined # rest) = [] # jsElements rest"
| "jsElements (JNull # rest) = [] # jsElements rest"
| "jsElements (x # rest) = jsString x # jsElements rest"

subsection \<open>Errors\<close>

datatype JsError =
    Error string
  | AggregateError "JsError list" string

text \<open>What a rejected promise or a \<^verbatim>\<open>throw\<close> carries: an Error or any other value.\<close>

datatype Thrown = ThrowError JsError | ThrowValue JsVal

text \<open>\<^verbatim>\<open>error instanceof Error ? error : new Error(String(error))\<close>\<close>

definition toError :: "Thrown \<Rightarrow> JsError" where
  "toError t = (case t of ThrowError e \<Rightarrow> e | ThrowValue v \<Rightarrow> Error (jsString v))"

definition dq :: string where
  "dq = [CHR 0x22]"

section \<open>Map and Set with insertion order\<close>

text \<open>
  A JavaScript \<^verbatim>\<open>Map\<close> iterates in insertion order; \<^verbatim>\<open>set\<close> on a present key keeps
  its place. A \<^verbatim>\<open>Set\<close> likewise.
\<close>

definition mapGet :: "('k \<times> 'v) list \<Rightarrow> 'k \<Rightarrow> 'v option" where
  "mapGet m k = map_of m k"

fun mapSet :: "'k \<Rightarrow> 'v \<Rightarrow> ('k \<times> 'v) list \<Rightarrow> ('k \<times> 'v) list" where
  "mapSet k v [] = [(k, v)]"
| "mapSet k v ((k', v') # rest) =
     (if k' = k then (k, v) # rest else (k', v') # mapSet k v rest)"

definition mapHas :: "('k \<times> 'v) list \<Rightarrow> 'k \<Rightarrow> bool" where
  "mapHas m k = (k \<in> set (map fst m))"

definition mapDelete :: "'k \<Rightarrow> ('k \<times> 'v) list \<Rightarrow> ('k \<times> 'v) list" where
  "mapDelete k m = filter (\<lambda>p. fst p \<noteq> k) m"

definition setHas :: "'a list \<Rightarrow> 'a \<Rightarrow> bool" where
  "setHas xs x = (x \<in> set xs)"

definition setAdd :: "'a \<Rightarrow> 'a list \<Rightarrow> 'a list" where
  "setAdd x xs = (if x \<in> set xs then xs else xs @ [x])"

definition setDelete :: "'a \<Rightarrow> 'a list \<Rightarrow> 'a list" where
  "setDelete x xs = filter (\<lambda>y. y \<noteq> x) xs"

section \<open>Types of the manager (types.ts)\<close>

type_synonym ClientIdentifier = string

text \<open>A transport is an object of the caller; the model names it by a handle.\<close>

type_synonym Transport = nat

text \<open>
  An SDK \<^verbatim>\<open>Client\<close> object: the implementation info and options it was constructed with, and
  its object identity (the number of clients constructed before it).
\<close>

datatype Client = Client (clientName: string) (clientVersion: string) (clientOptions: JsObject) (objId: nat)

record ClientInfo =
  client :: Client
  serverName :: string
  transport :: Transport
  connected :: bool
  error :: "JsError option"

record MCPClientManagerConfig =
  defaultTimeout :: "int option"
  autoReconnect :: "bool option"
  maxReconnectAttempts :: "int option"
  reconnectDelay :: "int option"
  debug :: "bool option"

text \<open>
  \<^verbatim>\<open>Partial<MCPClientManagerConfig>\<close>: a key is absent (\<open>None\<close>), or present with a value that
  may itself be \<^verbatim>\<open>undefined\<close> (\<open>Some None\<close>).
\<close>

record PartialConfig =
  defaultTimeoutKey :: "int option option"
  autoReconnectKey :: "bool option option"
  maxReconnectAttemptsKey :: "int option option"
  reconnectDelayKey :: "int option option"
  debugKey :: "bool option option"

datatype Event =
    ServerAdded ClientIdentifier string
  | ConnectionError string JsError
  | TransportError ClientIdentifier string JsError
  | TransportClosed ClientIdentifier string
  | ClientReconnected ClientIdentifier string
  | ReconnectionError ClientIdentifier JsError
  | CloseError ClientIdentifier JsError
  | ClientRemoved ClientIdentifier string
  | OperationError string ClientIdentifier string JsError

section \<open>The manager and its runtime\<close>

text \<open>
  The value of \<^verbatim>\<open>transport.onerror\<close> / \<^verbatim>\<open>transport.onclose\<close>: undefined, a handler somebody
  else put there, or the closure the manager installs, which captures the client id and
  the server name.
\<close>

datatype Hook = Unset | Foreign | Installed ClientIdentifier string

text \<open>
  A pending \<^verbatim>\<open>setTimeout\<close> callback of \<^verbatim>\<open>scheduleReconnect\<close>. The handle stands for the
  Timeout object that \<^verbatim>\<open>setTimeout\<close> returns, which is always truthy.
\<close>

record Timer =
  timerHandle :: nat
  timerDelay :: "int option"
  timerClient :: ClientIdentifier
  timerAttempt :: nat

record RemoteCall =
  callClient :: ClientIdentifier
  callMethod :: string
  callRequest :: JsObject

text \<open>
  The fields of the class, followed by the parts of the runtime the class acts on: the
  events emitted so far, the pending timers of the event loop, the hook slots of the
  transports, the number of \<^verbatim>\<open>Client\<close> objects constructed and the remote operations invoked.
\<close>

record Manager =
  clients :: "(ClientIdentifier \<times> ClientInfo) list"
  serverNames :: "string list"
  nextClientId :: nat
  config :: MCPClientManagerConfig
  reconnectTimers :: "(ClientIdentifier \<times> nat) list"
  emitted :: "Event list"
  timerQueue :: "Timer list"
  timerSeq :: nat
  onerrorHook :: "Transport \<Rightarrow> Hook"
  oncloseHook :: "Transport \<Rightarrow> Hook"
  clientSeq :: nat
  remoteLog :: "RemoteCall list"

definition DEFAULT_CLIENT_CONFIG :: JsObject where
  "DEFAULT_CLIENT_CONFIG =
     [(''capabilities'', JObj [(''prompts'', JObj []), (''resources'', JObj []), (''tools'', JObj [])])]"

definition DEFAULT_MANAGER_CONFIG :: MCPClientManagerConfig where
  "DEFAULT_MANAGER_CONFIG =
     \<lparr> defaultTimeout = Some 30000, autoReconnect = Some False, maxReconnectAttempts = Some 3,
       reconnectDelay = Some 5000, debug = Some False \<rparr>"

text \<open>One key of \<^verbatim>\<open>{ ...DEFAULT_MANAGER_CONFIG, ...config }\<close>.\<close>

definition spreadKey :: "'a option \<Rightarrow> 'a option option \<Rightarrow> 'a option" where
  "spreadKey dflt given = (case given of None \<Rightarrow> dflt | Some v \<Rightarrow> v)"

definition mergeConfig :: "MCPClientManagerConfig \<Rightarrow> PartialConfig \<Rightarrow> MCPClientManagerConfig" where
  "mergeConfig d p =
     \<lparr> defaultTimeout = spreadKey (defaultTimeout d) (defaultTimeoutKey p),
       autoReconnect = spreadKey (autoReconnect d) (autoReconnectKey p),
       maxReconnectAttempts = spreadKey (maxReconnectAttempts d) (maxReconnectAttemptsKey p),
       reconnectDelay = spreadKey (reconnectDelay d) (reconnectDelayKey p),
       debug = spreadKey (debug d) (debugKey p) \<rparr>"

definition emptyConfig :: PartialConfig where
  "emptyConfig =
     \<lparr> defaultTimeoutKey = None, autoReconnectKey = None, maxReconnectAttemptsKey = None,
       reconnectDelayKey = None, debugKey = None \<rparr>"

text \<open>The constructor. No timer is pending, no transport carries a hook of the manager.\<close>

definition newManager :: "PartialConfig \<Rightarrow> Manager" where
  "newManager cfg =
     \<lparr> clients = [], serverNames = [], nextClientId = 1,
       config = mergeConfig DEFAULT_MANAGER_CONFIG cfg,
       reconnectTimers = [], emitted = [], timerQueue = [], timerSeq = 0,
       onerrorHook = (\<lambda>_. Unset), oncloseHook = (\<lambda>_. Unset), clientSeq = 0, remoteLog = [] \<rparr>"

definition emit :: "Event \<Rightarrow> Manager \<Rightarrow> Manager" where
  "emit e s = s\<lparr>emitted := emitted s @ [e]\<rparr>"

text \<open>\<^verbatim>\<open>`client-${n}`\<close>\<close>

definition clientIdOf :: "nat \<Rightarrow> ClientIdentifier" where
  "clientIdOf n = ''client-'' @ natDigits n"

text \<open>\<^verbatim>\<open>new Client(info, options)\<close>\<close>

definition newClient :: "string \<Rightarrow> string \<Rightarrow> JsObject \<Rightarrow> Manager \<Rightarrow> Client \<times> Manager" where
  "newClient nm ver opts s = (Client nm ver opts (clientSeq s), s\<lparr>clientSeq := clientSeq s + 1\<rparr>)"

section \<open>Lifecycle (MCPClientManager.ts)\<close>

definition setupTransportErrorHandling ::
  "Transport \<Rightarrow> ClientIdentifier \<Rightarrow> string \<Rightarrow> Manager \<Rightarrow> Manager" where
  "setupTransportErrorHandling tp clientId sname s =
     (let s1 = (if onerrorHook s tp = Unset
                then s\<lparr>onerrorHook := (onerrorHook s)(tp := Installed clientId sname)\<rparr> else s);
          s2 = (if oncloseHook s1 tp = Unset
                then s1\<lparr>oncloseHook := (oncloseHook s1)(tp := Installed clientId sname)\<rparr> else s1)
      in s2)"

text \<open>\<^verbatim>\<open>clearTimeout(handle)\<close>: a handle that is not pending is ignored.\<close>

definition clearTimeout :: "nat \<Rightarrow> Manager \<Rightarrow> Manager" where
  "clearTimeout h s = s\<lparr>timerQueue := filter (\<lambda>t. timerHandle t \<noteq> h) (timerQueue s)\<rparr>"

text \<open>\<^verbatim>\<open>setTimeout(callback, delay)\<close> for the callback of \<^verbatim>\<open>scheduleReconnect\<close>.\<close>

definition setTimeout :: "ClientIdentifier \<Rightarrow> nat \<Rightarrow> int option \<Rightarrow> Manager \<Rightarrow> nat \<times> Manager" where
  "setTimeout clientId attemptCount delay s =
     (timerSeq s,
      s\<lparr>timerQueue := timerQueue s @
           [\<lparr>timerHandle = timerSeq s, timerDelay = delay, timerClient = clientId,
             timerAttempt = attemptCount\<rparr>],
        timerSeq := timerSeq s + 1\<rparr>)"

definition scheduleReconnect :: "ClientIdentifier \<Rightarrow> nat \<Rightarrow> Manager \<Rightarrow> Manager" where
  "scheduleReconnect clientId attemptCount s =
     (let s1 = (case mapGet (reconnectTimers s) clientId of
                  None \<Rightarrow> s
                | Some existingTimer \<Rightarrow> clearTimeout existingTimer s)
      in if int attemptCount \<ge> (case orNum (maxReconnectAttempts (config s1)) (Some 0) of
                                    None \<Rightarrow> 0 | Some m \<Rightarrow> m)
         then s1
         else (let (timer, s2) = setTimeout clientId attemptCount (reconnectDelay (config s1)) s1
               in s2\<lparr>reconnectTimers := mapSet clientId timer (reconnectTimers s2)\<rparr>))"

text \<open>
  \<^verbatim>\<open>addServer\<close>. The outcome of \<^verbatim>\<open>await client.connect(transport)\<close> is a parameter:
  \<open>None\<close> when the handshake resolves, the thrown value otherwise.
\<close>

definition addServer ::
  "Transport \<Rightarrow> string \<Rightarrow> JsObject \<Rightarrow> Thrown option \<Rightarrow> Manager \<Rightarrow> (JsError + ClientIdentifier) \<times> Manager" where
  "addServer tp sname clientConfig connectResult s =
     (if setHas (serverNames s) sname
      then (Inl (Error (''Server '' @ dq @ sname @ dq @ '' already exists. Each server must have a unique name.'')), s)
      else
        (let clientId = clientIdOf (nextClientId s);
             s1 = s\<lparr>nextClientId := nextClientId s + 1\<rparr>;
             mergedConfig = spread DEFAULT_CLIENT_CONFIG clientConfig;
             (c, s2) = newClient (sname @ ''-client'') ''1.0.0'' mergedConfig s1;
             s3 = setupTransportErrorHandling tp clientId sname s2
         in case connectResult of
              None \<Rightarrow>
                (let s4 = s3\<lparr>clients := mapSet clientId
                               \<lparr>client = c, serverName = sname, transport = tp, connected = True,
                                 error = None\<rparr> (clients s3)\<rparr>;
                     s5 = s4\<lparr>serverNames := setAdd sname (serverNames s4)\<rparr>
                 in (Inr clientId, emit (ServerAdded clientId sname) s5))
            | Some thrown \<Rightarrow>
                (let typedError = toError thrown
                 in (Inl typedError, emit (ConnectionError sname typedError) s3))))"

text \<open>\<^verbatim>\<open>reconnectClient\<close>, with the outcome of the connect as a parameter.\<close>

definition reconnectClient :: "ClientIdentifier \<Rightarrow> Thrown option \<Rightarrow> Manager \<Rightarrow> bool \<times> Manager" where
  "reconnectClient clientId connectResult s =
     (case mapGet (clients s) clientId of
        None \<Rightarrow> (False, s)
      | Some clientInfo \<Rightarrow>
          if connected clientInfo then (True, s)
          else
            (let (c, s1) = newClient (serverName clientInfo @ ''-client'') ''1.0.0'' DEFAULT_CLIENT_CONFIG s;
                 s2 = setupTransportErrorHandling (transport clientInfo) clientId (serverName clientInfo) s1
             in case connectResult of
                  None \<Rightarrow>
                    (let s3 = s2\<lparr>clients := mapSet clientId
                                   (clientInfo\<lparr>client := c, connected := True, error := None\<rparr>) (clients s2)\<rparr>
                     in (True, emit (ClientReconnected clientId (serverName clientInfo)) s3))
                | Some thrown \<Rightarrow>
                    (False, emit (ReconnectionError clientId (toError thrown)) s2)))"

text \<open>The hooks installed by \<^verbatim>\<open>setupTransportErrorHandling\<close>, run when the transport fires them.\<close>

definition updateClient :: "ClientIdentifier \<Rightarrow> (ClientInfo \<Rightarrow> ClientInfo) \<Rightarrow> Manager \<Rightarrow> Manager" where
  "updateClient cid f s =
     s\<lparr>clients := map (\<lambda>(k, info). if k = cid then (k, f info) else (k, info)) (clients s)\<rparr>"

definition transportOnError :: "Transport \<Rightarrow> JsError \<Rightarrow> Manager \<Rightarrow> Manager" where
  "transportOnError tp err s =
     (case onerrorHook s tp of
        Installed clientId sname \<Rightarrow>
          (case mapGet (clients s) clientId of
             None \<Rightarrow> s
           | Some clientInfo \<Rightarrow>
               emit (TransportError clientId sname err) (updateClient clientId (\<lambda>i. i\<lparr>error := Some err\<rparr>) s))
      | _ \<Rightarrow> s)"

definition transportOnClose :: "Transport \<Rightarrow> Manager \<Rightarrow> Manager" where
  "transportOnClose tp s =
     (case oncloseHook s tp of
        Installed clientId sname \<Rightarrow>
          (case mapGet (clients s) clientId of
             None \<Rightarrow> s
           | Some clientInfo \<Rightarrow>
               (let s1 = updateClient clientId (\<lambda>i. i\<lparr>connected := False\<rparr>) s;
                    s2 = emit (TransportClosed clientId sname) s1
                in if truthyBool (autoReconnect (config s2)) then scheduleReconnect clientId 0 s2 else s2))
      | _ \<Rightarrow> s)"

text \<open>
  What \<^verbatim>\<open>transport.close()\<close> does before it returns or throws: it may call the transport's
  \<^verbatim>\<open>onclose\<close> and \<^verbatim>\<open>onerror\<close> slots, any number of times, in the same turn.
\<close>

datatype HookCall = CallsOnClose | CallsOnError JsError

fun runCloseCalls :: "Transport \<Rightarrow> HookCall list \<Rightarrow> Manager \<Rightarrow> Manager" where
  "runCloseCalls tp [] s = s"
| "runCloseCalls tp (CallsOnClose # rest) s = runCloseCalls tp rest (transportOnClose tp s)"
| "runCloseCalls tp (CallsOnError err # rest) s = runCloseCalls tp rest (transportOnError tp err s)"

text \<open>
  \<^verbatim>\<open>removeClient\<close>. The behaviour of \<^verbatim>\<open>transport.close()\<close> is a parameter: the hook calls it
  makes while the record is still in the store, and its outcome (\<open>None\<close> when it returns).
\<close>

definition removeClient ::
  "ClientIdentifier \<Rightarrow> HookCall list \<Rightarrow> Thrown option \<Rightarrow> Manager \<Rightarrow> bool \<times> Manager" where
  "removeClient cid closeCalls closeResult s =
     (case mapGet (clients s) cid of
        None \<Rightarrow> (False, s)
      | Some clientInfo \<Rightarrow>
          (let s1 = (case mapGet (reconnectTimers s) cid of
                       None \<Rightarrow> s
                     | Some reconnectTimer \<Rightarrow>
                         (let s' = clearTimeout reconnectTimer s
                          in s'\<lparr>reconnectTimers := mapDelete cid (reconnectTimers s')\<rparr>));
               s2 = s1\<lparr>serverNames := setDelete (serverName clientInfo) (serverNames s1)\<rparr>;
               s3 = (if connected clientInfo
                     then (let closing = runCloseCalls (transport clientInfo) closeCalls s2
                           in case closeResult of
                                None \<Rightarrow> closing
                              | Some thrown \<Rightarrow> emit (CloseError cid (toError thrown)) closing)
                     else s2);
               result = mapHas (clients s3) cid;
               s4 = s3\<lparr>clients := mapDelete cid (clients s3)\<rparr>
           in (result, if result then emit (ClientRemoved cid (serverName clientInfo)) s4 else s4)))"

text \<open>
  A pending timer fires: the callback of \<^verbatim>\<open>scheduleReconnect\<close> runs, with the outcome of
  the connect inside \<^verbatim>\<open>reconnectClient\<close> as a parameter. A handle that is not pending does
  nothing.
\<close>

definition fireTimer :: "nat \<Rightarrow> Thrown option \<Rightarrow> Manager \<Rightarrow> Manager" where
  "fireTimer h connectResult s =
     (case find (\<lambda>t. timerHandle t = h) (timerQueue s) of
        None \<Rightarrow> s
      | Some t \<Rightarrow>
          (let s1 = s\<lparr>timerQueue := filter (\<lambda>t'. timerHandle t' \<noteq> h) (timerQueue s)\<rparr>;
               (success, s2) = reconnectClient (timerClient t) connectResult s1
           in if \<not> success \<and> truthyBool (autoReconnect (config s2))
              then scheduleReconnect (timerClient t) (timerAttempt t + 1) s2
              else s2))"

section \<open>Fan-out queries (MCPClientManager.ts)\<close>

text \<open>
  A remote operation \<^verbatim>\<open>await clientInfo.client.method(request)\<close> is answered by the
  environment: it resolves with a result object or rejects with a thrown value. Every
  invocation is recorded in \<open>remoteLog\<close>.
\<close>

type_synonym Remote = "Client \<Rightarrow> string \<Rightarrow> JsObject \<Rightarrow> Thrown + JsObject"

definition logCall :: "ClientIdentifier \<Rightarrow> string \<Rightarrow> JsObject \<Rightarrow> Manager \<Rightarrow> Manager" where
  "logCall cid method req s =
     s\<lparr>remoteLog := remoteLog s @ [\<lparr>callClient = cid, callMethod = method, callRequest = req\<rparr>]\<rparr>"

text \<open>
  The loop of \<^verbatim>\<open>listPrompts\<close>, \<^verbatim>\<open>listResources\<close> and \<^verbatim>\<open>listTools\<close> over
  \<^verbatim>\<open>this.clients.entries()\<close>: the three bodies differ in the operation and in the key of the
  result that holds the items.
\<close>

fun aggregateLoop ::
  "string \<Rightarrow> string \<Rightarrow> Remote \<Rightarrow> JsObject \<Rightarrow> (ClientIdentifier \<times> ClientInfo) list \<Rightarrow>
   JsVal list \<times> (ClientIdentifier \<times> JsError) list \<times> Manager \<Rightarrow>
   JsVal list \<times> (ClientIdentifier \<times> JsError) list \<times> Manager" where
  "aggregateLoop opn key remote req [] acc = acc"
| "aggregateLoop opn key remote req ((cid, clientInfo) # rest) (allItems, errors, s) =
     (if \<not> connected clientInfo then aggregateLoop opn key remote req rest (allItems, errors, s)
      else
        (let s1 = logCall cid opn req s
         in case remote (client clientInfo) opn req of
              Inr res \<Rightarrow>
                (case getProp res key of
                   JArr items \<Rightarrow> aggregateLoop opn key remote req rest (allItems @ items, errors, s1)
                 | _ \<Rightarrow> aggregateLoop opn key remote req rest (allItems, errors, s1))
            | Inl thrown \<Rightarrow>
                (let typedError = toError thrown;
                     s2 = updateClient cid (\<lambda>i. i\<lparr>error := Some typedError\<rparr>) s1;
                     s3 = emit (OperationError opn cid (serverName clientInfo) typedError) s2
                 in aggregateLoop opn key remote req rest (allItems, errors @ [(cid, typedError)], s3))))"

definition aggregate ::
  "string \<Rightarrow> string \<Rightarrow> string \<Rightarrow> int option \<Rightarrow> Remote \<Rightarrow> Manager \<Rightarrow> (JsError + JsVal list) \<times> Manager" where
  "aggregate opn key failure timeout remote s =
     (let effectiveTimeout = orNum timeout (defaultTimeout (config s));
          (allItems, errors, s') =
             aggregateLoop opn key remote [(''timeout'', optNum effectiveTimeout)] (clients s) ([], [], s)
      in if length errors > 0 \<and> length allItems = 0
         then (Inl (AggregateError (map snd errors) failure), s')
         else (Inr allItems, s'))"

definition listPrompts :: "int option \<Rightarrow> Remote \<Rightarrow> Manager \<Rightarrow> (JsError + JsVal list) \<times> Manager" where
  "listPrompts timeout remote s =
     aggregate ''listPrompts'' ''prompts'' ''Failed to list prompts from all clients'' timeout remote s"

definition listResources :: "int option \<Rightarrow> Remote \<Rightarrow> Manager \<Rightarrow> (JsError + JsVal list) \<times> Manager" where
  "listResources timeout remote s =
     aggregate ''listResources'' ''resources'' ''Failed to list resources from all clients'' timeout remote s"

definition listTools :: "int option \<Rightarrow> Remote \<Rightarrow> Manager \<Rightarrow> (JsError + JsVal list) \<times> Manager" where
  "listTools timeout remote s =
     aggregate ''listTools'' ''tools'' ''Failed to list tools from all clients'' timeout remote s"

text \<open>
  The loop of \<^verbatim>\<open>getPrompt\<close>, \<^verbatim>\<open>readResource\<close> and \<^verbatim>\<open>callTool\<close>: \<open>Some\<close> result as soon as a
  remote call resolves, \<open>None\<close> when the loop runs to its end.
\<close>

fun firstLoop ::
  "string \<Rightarrow> Remote \<Rightarrow> JsObject \<Rightarrow> (ClientIdentifier \<times> ClientInfo) list \<Rightarrow>
   (ClientIdentifier \<times> JsError) list \<times> Manager \<Rightarrow>
   JsObject option \<times> (ClientIdentifier \<times> JsError) list \<times> Manager" where
  "firstLoop opn remote req [] (errors, s) = (None, errors, s)"
| "firstLoop opn remote req ((cid, clientInfo) # rest) (errors, s) =
     (if \<not> connected clientInfo then firstLoop opn remote req rest (errors, s)
      else
        (let s1 = logCall cid opn req s
         in case remote (client clientInfo) opn req of
              Inr res \<Rightarrow> (Some res, errors, s1)
            | Inl thrown \<Rightarrow>
                (let typedError = toError thrown;
                     s2 = emit (OperationError opn cid (serverName clientInfo) typedError) s1
                 in firstLoop opn remote req rest (errors @ [(cid, typedError)], s2))))"

definition getPromptRequest :: "string \<Rightarrow> JsObject \<Rightarrow> int option \<Rightarrow> Manager \<Rightarrow> JsObject" where
  "getPromptRequest promptName args timeout s =
     (let args1 = (if truthyNum timeout then setProp ''timeout'' (optNum timeout) args
                   else if truthyNum (defaultTimeout (config s)) \<and> \<not> truthy (getProp args ''timeout'')
                        then setProp ''timeout'' (optNum (defaultTimeout (config s))) args
                        else args)
      in spread [(''name'', JStr promptName)] args1)"

definition getPrompt ::
  "string \<Rightarrow> JsObject \<Rightarrow> int option \<Rightarrow> Remote \<Rightarrow> Manager \<Rightarrow> (JsError + JsObject) \<times> Manager" where
  "getPrompt promptName args timeout remote s =
     (let promptRequest = getPromptRequest promptName args timeout s;
          (found, errors, s') = firstLoop ''getPrompt'' remote promptRequest (clients s) ([], s)
      in case found of
           Some res \<Rightarrow> (Inr res, s')
         | None \<Rightarrow>
             (Inl (AggregateError (map snd errors)
                     (''Prompt '' @ dq @ promptName @ dq @ '' not found in any client'')), s'))"

definition readResourceRequest :: "string \<Rightarrow> int option \<Rightarrow> Manager \<Rightarrow> JsObject" where
  "readResourceRequest resourceUri timeout s =
     (let options = (if truthyNum timeout \<or> truthyNum (defaultTimeout (config s))
                     then [(''timeout'', optNum (orNum timeout (defaultTimeout (config s))))]
                     else [])
      in spread [(''uri'', JStr resourceUri)] options)"

definition readResource ::
  "string \<Rightarrow> int option \<Rightarrow> Remote \<Rightarrow> Manager \<Rightarrow> (JsError + JsObject) \<times> Manager" where
  "readResource resourceUri timeout remote s =
     (let resourceRequest = readResourceRequest resourceUri timeout s;
          (found, errors, s') = firstLoop ''readResource'' remote resourceRequest (clients s) ([], s)
      in case found of
           Some res \<Rightarrow> (Inr res, s')
         | None \<Rightarrow>
             (Inl (AggregateError (map snd errors)
                     (''Resource '' @ dq @ resourceUri @ dq @ '' not found in any client'')), s'))"

definition callToolRequest :: "string \<Rightarrow> JsObject \<Rightarrow> int option \<Rightarrow> Manager \<Rightarrow> JsObject" where
  "callToolRequest toolName args timeout s =
     (let toolRequest = [(''name'', JStr toolName), (''arguments'', JObj args)]
      in if truthyNum timeout \<or> truthyNum (defaultTimeout (config s))
         then (let meta = (if truthy (getProp toolRequest ''_meta'')
                           then (case getProp toolRequest ''_meta'' of JObj m \<Rightarrow> m | _ \<Rightarrow> [])
                           else []);
                   meta1 = setProp ''timeout'' (optNum (orNum timeout (defaultTimeout (config s)))) meta
               in setProp ''_meta'' (JObj meta1) toolRequest)
         else toolRequest)"

text \<open>\<^verbatim>\<open>{ result: result.result, ...result } as ToolResponse\<close>\<close>

definition toolResponse :: "JsObject \<Rightarrow> JsObject" where
  "toolResponse res = spread [(''result'', getProp res ''result'')] res"

definition callTool ::
  "string \<Rightarrow> JsObject \<Rightarrow> int option \<Rightarrow> Remote \<Rightarrow> Manager \<Rightarrow> (JsError + JsObject) \<times> Manager" where
  "callTool toolName args timeout remote s =
     (let toolRequest = callToolRequest toolName args timeout s;
          (found, errors, s') = firstLoop ''callTool'' remote toolRequest (clients s) ([], s)
      in case found of
           Some res \<Rightarrow> (Inr (toolResponse res), s')
         | None \<Rightarrow>
             (Inl (AggregateError (map snd errors)
                     (''Tool '' @ dq @ toolName @ dq @ '' not found in any client'')), s'))"

section \<open>The stages of removeClient\<close>

text \<open>The state after the pending reconnect timer of the id is cleared and forgotten.\<close>

definition cancelPending :: "ClientIdentifier \<Rightarrow> Manager \<Rightarrow> Manager" where
  "cancelPending cid s =
     (case mapGet (reconnectTimers s) cid of
        None \<Rightarrow> s
      | Some reconnectTimer \<Rightarrow>
          (clearTimeout reconnectTimer s)\<lparr>reconnectTimers := mapDelete cid (reconnectTimers s)\<rparr>)"

text \<open>The state after the name is freed and the transport closed, before the record is deleted.\<close>

definition closing :: "ClientIdentifier \<Rightarrow> ClientInfo \<Rightarrow> HookCall list \<Rightarrow> Thrown option \<Rightarrow> Manager \<Rightarrow> Manager" where
  "closing cid clientInfo closeCalls closeResult s =
     (let s2 = (cancelPending cid s)\<lparr>serverNames := setDelete (serverName clientInfo) (serverNames s)\<rparr>
      in if connected clientInfo
         then (case closeResult of
                 None \<Rightarrow> runCloseCalls (transport clientInfo) closeCalls s2
               | Some thrown \<Rightarrow>
                   emit (CloseError cid (toError thrown)) (runCloseCalls (transport clientInfo) closeCalls s2))
         else s2)"

section \<open>Histories of a manager\<close>

text \<open>
  What can happen to a manager between its construction and a given moment: calls of its
  public methods, with the answers of the environment; the callbacks the runtime runs (a
  transport firing one of its hooks, a timer firing); and somebody else assigning the
  \<^verbatim>\<open>onerror\<close> or \<^verbatim>\<open>onclose\<close> slot of a transport. Every step runs to its end before the
  next one starts.
\<close>

datatype Action =
    AddServer Transport string JsObject "Thrown option"
  | ReconnectClient ClientIdentifier "Thrown option"
  | RemoveClient ClientIdentifier "HookCall list" "Thrown option"
  | ListPrompts "int option" Remote
  | ListResources "int option" Remote
  | ListTools "int option" Remote
  | GetPrompt string JsObject "int option" Remote
  | ReadResource string "int option" Remote
  | CallTool string JsObject "int option" Remote
  | TransportErrors Transport JsError
  | TransportCloses Transport
  | TimerFires nat "Thrown option"
  | OnErrorAssigned Transport Hook
  | OnCloseAssigned Transport Hook

fun exec :: "Action \<Rightarrow> Manager \<Rightarrow> Manager" where
  "exec (AddServer tp sname clientConfig connectResult) s = snd (addServer tp sname clientConfig connectResult s)"
| "exec (ReconnectClient cid connectResult) s = snd (reconnectClient cid connectResult s)"
| "exec (RemoveClient cid closeCalls closeResult) s = snd (removeClient cid closeCalls closeResult s)"
| "exec (ListPrompts timeout remote) s = snd (listPrompts timeout remote s)"
| "exec (ListResources timeout remote) s = snd (listResources timeout remote s)"
| "exec (ListTools timeout remote) s = snd (listTools timeout remote s)"
| "exec (GetPrompt promptName args timeout remote) s = snd (getPrompt promptName args timeout remote s)"
| "exec (ReadResource resourceUri timeout remote) s = snd (readResource resourceUri timeout remote s)"
| "exec (CallTool toolName args timeout remote) s = snd (callTool toolName args timeout remote s)"
| "exec (TransportErrors tp err) s = transportOnError tp err s"
| "exec (TransportCloses tp) s = transportOnClose tp s"
| "exec (TimerFires h connectResult) s = fireTimer h connectResult s"
| "exec (OnErrorAssigned tp hook) s = s\<lparr>onerrorHook := (onerrorHook s)(tp := hook)\<rparr>"
| "exec (OnCloseAssigned tp hook) s = s\<lparr>oncloseHook := (oncloseHook s)(tp := hook)\<rparr>"

definition run :: "Action list \<Rightarrow> Manager \<Rightarrow> Manager" where
  "run acts s = foldl (\<lambda>st a. exec a st) s acts"

section \<open>Vocabulary of the statements\<close>

text \<open>The answer of the environment to the operation on one entry of the store.\<close>

definition outcomeOf :: "Remote \<Rightarrow> string \<Rightarrow> JsObject \<Rightarrow> ClientIdentifier \<times> ClientInfo \<Rightarrow> Thrown + JsObject" where
  "outcomeOf remote opn req e = remote (client (snd e)) opn req"

definition rejects :: "Remote \<Rightarrow> string \<Rightarrow> JsObject \<Rightarrow> ClientIdentifier \<times> ClientInfo \<Rightarrow> bool" where
  "rejects remote opn req e = isl (outcomeOf remote opn req e)"

definition errorOf :: "Remote \<Rightarrow> string \<Rightarrow> JsObject \<Rightarrow> ClientIdentifier \<times> ClientInfo \<Rightarrow> JsError" where
  "errorOf remote opn req e = toError (projl (outcomeOf remote opn req e))"

definition itemsOf :: "Remote \<Rightarrow> string \<Rightarrow> string \<Rightarrow> JsObject \<Rightarrow> ClientIdentifier \<times> ClientInfo \<Rightarrow> JsVal list" where
  "itemsOf remote opn key req e =
     (case outcomeOf remote opn req e of
        Inl thrown \<Rightarrow> []
      | Inr res \<Rightarrow> (case getProp res key of JArr items \<Rightarrow> items | _ \<Rightarrow> []))"

definition isConnected :: "ClientIdentifier \<times> ClientInfo \<Rightarrow> bool" where
  "isConnected e = connected (snd e)"

definition connectedEntries :: "Manager \<Rightarrow> (ClientIdentifier \<times> ClientInfo) list" where
  "connectedEntries s = filter isConnected (clients s)"

definition callOf :: "string \<Rightarrow> JsObject \<Rightarrow> ClientIdentifier \<times> ClientInfo \<Rightarrow> RemoteCall" where
  "callOf opn req e = \<lparr>callClient = fst e, callMethod = opn, callRequest = req\<rparr>"

definition operationErrorOf :: "Remote \<Rightarrow> string \<Rightarrow> JsObject \<Rightarrow> ClientIdentifier \<times> ClientInfo \<Rightarrow> Event" where
  "operationErrorOf remote opn req e =
     OperationError opn (fst e) (serverName (snd e)) (errorOf remote opn req e)"

text \<open>The remote operations invoked and the events emitted between two states.\<close>

definition newCalls :: "Manager \<Rightarrow> Manager \<Rightarrow> RemoteCall list" where
  "newCalls s s' = drop (length (remoteLog s)) (remoteLog s')"

definition newEvents :: "Manager \<Rightarrow> Manager \<Rightarrow> Event list" where
  "newEvents s s' = drop (length (emitted s)) (emitted s')"

text \<open>The store without its disconnected records.\<close>

definition withoutDisconnected :: "Manager \<Rightarrow> Manager" where
  "withoutDisconnected s = s\<lparr>clients := connectedEntries s\<rparr>"

text \<open>The timers pending for one client id.\<close>

definition pendingFor :: "ClientIdentifier \<Rightarrow> Manager \<Rightarrow> Timer list" where
  "pendingFor cid s = filter (\<lambda>t. timerClient t = cid) (timerQueue s)"

section \<open>Example states\<close>

definition exampleAlpha :: Manager where
  "exampleAlpha = snd (addServer 0 ''alpha'' [] None (newManager emptyConfig))"

definition exampleAlphaBeta :: Manager where
  "exampleAlphaBeta = snd (addServer 1 ''beta'' [] None exampleAlpha)"

section \<open>The first-responder contract\<close>

text \<open>
  The first-responder query as the specification words it: the connected records are
  visited in store order; \<open>failed\<close> are those visited before the first one whose remote
  call resolves, \<open>invoked\<close> adds that one and nothing after it; every failure is emitted
  as an operationError; the result is that record's result, or an aggregate error over the
  errors of all attempts with a message that names the target.
\<close>

definition firstResponderSpec ::
  "string \<Rightarrow> JsObject \<Rightarrow> (JsObject \<Rightarrow> JsObject) \<Rightarrow> string \<Rightarrow> Remote \<Rightarrow> Manager \<Rightarrow> (JsError + JsObject) \<times> Manager" where
  "firstResponderSpec opn req conv failure remote s =
     (let visited = connectedEntries s;
          failed = takeWhile (rejects remote opn req) visited;
          rest = dropWhile (rejects remote opn req) visited;
          invoked = failed @ take 1 rest;
          s' = s\<lparr>emitted := emitted s @ map (operationErrorOf remote opn req) failed,
                 remoteLog := remoteLog s @ map (callOf opn req) invoked\<rparr>
      in case rest of
           [] \<Rightarrow> (Inl (AggregateError (map (errorOf remote opn req) failed) failure), s')
         | e # later \<Rightarrow> (Inr (conv (projr (outcomeOf remote opn req e))), s'))"

section \<open>Fan-out queries as one family\<close>

datatype Query =
    QListPrompts "int option"
  | QListResources "int option"
  | QListTools "int option"
  | QGetPrompt string JsObject "int option"
  | QReadResource string "int option"
  | QCallTool string JsObject "int option"

fun fanOut :: "Query \<Rightarrow> Remote \<Rightarrow> Manager \<Rightarrow> (JsError + JsVal) \<times> Manager" where
  "fanOut (QListPrompts timeout) remote s = apfst (map_sum id JArr) (listPrompts timeout remote s)"
| "fanOut (QListResources timeout) remote s = apfst (map_sum id JArr) (listResources timeout remote s)"
| "fanOut (QListTools timeout) remote s = apfst (map_sum id JArr) (listTools timeout remote s)"
| "fanOut (QGetPrompt promptName args timeout) remote s =
     apfst (map_sum id JObj) (getPrompt promptName args timeout remote s)"
| "fanOut (QReadResource resourceUri timeout) remote s =
     apfst (map_sum id JObj) (readResource resourceUri timeout remote s)"
| "fanOut (QCallTool toolName args timeout) remote s =
     apfst (map_sum id JObj) (callTool toolName args timeout remote s)"

section \<open>More vocabulary and example data\<close>

text \<open>
  The timeout a remote call carries: \<^verbatim>\<open>callTool\<close> puts it under \<^verbatim>\<open>_meta\<close>, the other
  operations at the top of the request. \<open>JUndefined\<close> when the request carries none.
\<close>

definition requestTimeout :: "RemoteCall \<Rightarrow> JsVal" where
  "requestTimeout c =
     (if callMethod c = ''callTool''
      then (case getProp (callRequest c) ''_meta'' of JObj meta \<Rightarrow> getProp meta ''timeout'' | _ \<Rightarrow> JUndefined)
      else getProp (callRequest c) ''timeout'')"

definition exampleAlphaDown :: Manager where
  "exampleAlphaDown = transportOnClose 0 exampleAlpha"

definition exampleBetaDown :: Manager where
  "exampleBetaDown = transportOnClose 1 exampleAlphaBeta"

definition remoteEmptyThenFail :: Remote where
  "remoteEmptyThenFail c method req =
     (if objId c = 0 then Inr [(''tools'', JArr [])] else Inl (ThrowError (Error ''down'')))"

definition remoteEcho :: Remote where
  "remoteEcho c method req = Inr [(''tools'', JArr [JStr (clientName c)]), (''request'', JObj req)]"

definition remoteBetaOnly :: Remote where
  "remoteBetaOnly c method req =
     (if objId c = 0 then Inl (ThrowError (Error ''no such tool'')) else Inr [(''content'', JStr ''hi'')])"

definition alphaInfo :: "bool \<Rightarrow> ClientInfo" where
  "alphaInfo up =
     \<lparr>client = Client ''alpha-client'' ''1.0.0'' DEFAULT_CLIENT_CONFIG 0, serverName = ''alpha'',
      transport = 0, connected = up, error = None\<rparr>"

section \<open>Invariants of the store\<close>

text \<open>Every id in the store was issued by the counter: it is \<^verbatim>\<open>client-n\<close> for an \<open>n\<close> below \<open>nextClientId\<close>.\<close>

definition idsIssued :: "Manager \<Rightarrow> bool" where
  "idsIssued s = list_all (\<lambda>k. \<exists>n < nextClientId s. k = clientIdOf n) (map fst (clients s))"

text \<open>The part of the state that a query leaves alone.\<close>

definition lifecycleOf ::
  "Manager \<Rightarrow> ClientIdentifier list \<times> string list \<times> nat \<times> MCPClientManagerConfig \<times>
     (ClientIdentifier \<times> nat) list \<times> Timer list \<times> nat \<times> (Transport \<Rightarrow> Hook) \<times> (Transport \<Rightarrow> Hook)" where
  "lifecycleOf s =
     (map fst (clients s), serverNames s, nextClientId s, config s, reconnectTimers s,
      timerQueue s, timerSeq s, onerrorHook s, oncloseHook s)"

definition exampleHistory :: "Action list" where
  "exampleHistory = [AddServer 0 ''alpha'' [] None, AddServer 1 ''beta'' [] None]"

section \<open>The reconnect state machine\<close>

text \<open>
  The timers are in order when the pending ones have distinct handles below the handle
  counter and each is the one \<open>reconnectTimers\<close> holds for its client id.
\<close>

definition timersOk :: "Manager \<Rightarrow> bool" where
  "timersOk s =
     (distinct (map timerHandle (timerQueue s)) \<and>
      list_all (\<lambda>t. timerHandle t < timerSeq s \<and>
                     mapGet (reconnectTimers s) (timerClient t) = Some (timerHandle t))
        (timerQueue s))"

text \<open>\<^verbatim>\<open>this.config.maxReconnectAttempts || 0\<close>, as the number of attempts that get scheduled.\<close>

definition maxAttempts :: "Manager \<Rightarrow> nat" where
  "maxAttempts s =
     nat (case orNum (maxReconnectAttempts (config s)) (Some 0) of None \<Rightarrow> 0 | Some m \<Rightarrow> m)"




text \<open>
  The attempts are in order when every pending timer carries an attempt number below the
  limit, and the handles held in \<open>reconnectTimers\<close> are distinct and below the handle counter.
\<close>

definition attemptsOk :: "Manager \<Rightarrow> bool" where
  "attemptsOk s =
     (list_all (\<lambda>t. timerAttempt t < maxAttempts s) (timerQueue s) \<and>
      distinct (map snd (reconnectTimers s)) \<and>
      list_all (\<lambda>e. snd e < timerSeq s) (reconnectTimers s))"

text \<open>
  The attempts an id has left: the limit minus the attempt number of its pending timer, none
  without a pending timer.
\<close>

definition remaining :: "ClientIdentifier \<Rightarrow> Manager \<Rightarrow> nat" where
  "remaining cid s =
     (case pendingFor cid s of [] \<Rightarrow> 0 | t # others \<Rightarrow> maxAttempts s - timerAttempt t)"












section \<open>Duplicate names\<close>

text \<open>
  C4: \<^verbatim>\<open>addServer\<close> with a server name that is already registered fails with the
  duplicate-name error and returns the state it was given: no id is consumed, no record is
  created, the set of registered names is as before, nothing is emitted.
\<close>

theorem addServer_duplicate_name:
  "setHas (serverNames s) sname \<Longrightarrow>
     addServer tp sname clientConfig connectResult s =
       (Inl (Error (''Server '' @ dq @ sname @ dq @ '' already exists. Each server must have a unique name.'')), s)"
  by (simp add: addServer_def)

theorem addServer_duplicate_name_witness:
  "setHas (serverNames exampleAlpha) ''alpha'' \<and>
   addServer 1 ''alpha'' [] None exampleAlpha =
     (Inl (Error (''Server '' @ dq @ ''alpha'' @ dq @ '' already exists. Each server must have a unique name.'')),
      exampleAlpha)"
proof -
  have registered: "setHas (serverNames exampleAlpha) ''alpha''"
    by code_simp
  show ?thesis
    using registered addServer_duplicate_name [OF registered, of 1 "[]" None] by simp
qed

section \<open>The two loops\<close>

lemma firstLoop_char:
  "firstLoop opn remote req es (errs, s) =
     (let conn = filter isConnected es;
          failed = takeWhile (rejects remote opn req) conn;
          rest = dropWhile (rejects remote opn req) conn
      in (case rest of [] \<Rightarrow> None | e # _ \<Rightarrow> Some (projr (outcomeOf remote opn req e)),
          errs @ map (\<lambda>e. (fst e, errorOf remote opn req e)) failed,
          s\<lparr>emitted := emitted s @ map (operationErrorOf remote opn req) failed,
            remoteLog := remoteLog s @ map (callOf opn req) (failed @ take 1 rest)\<rparr>))"
proof (induction es arbitrary: errs s)
  case Nil
  then show ?case by simp
next
  case (Cons e es)
  obtain cid info where e: "e = (cid, info)" by (cases e)
  show ?case
  proof (cases "connected info")
    case False
    then show ?thesis using Cons.IH e by (simp add: isConnected_def)
  next
    case True
    show ?thesis
    proof (cases "remote (client info) opn req")
      case (Inl thrown)
      then show ?thesis using True e Cons.IH
        by (simp add: Let_def isConnected_def rejects_def outcomeOf_def errorOf_def
            operationErrorOf_def callOf_def logCall_def emit_def)
    next
      case (Inr res)
      then show ?thesis using True e
        by (simp add: Let_def isConnected_def rejects_def outcomeOf_def callOf_def logCall_def)
    qed
  qed
qed

lemma firstLoop_spec:
  "(case firstLoop opn remote req (clients s) ([], s) of
      (found, errors, s') \<Rightarrow>
        (case found of
           Some res \<Rightarrow> (Inr (conv res), s')
         | None \<Rightarrow> (Inl (AggregateError (map snd errors) failure), s')))
   = firstResponderSpec opn req conv failure remote s"
proof (cases "dropWhile (rejects remote opn req) (filter isConnected (clients s))")
  case Nil
  then show ?thesis
    by (simp add: firstLoop_char firstResponderSpec_def connectedEntries_def Let_def comp_def
        del: dropWhile_eq_Nil_conv)
next
  case (Cons e later)
  then show ?thesis
    by (simp add: firstLoop_char firstResponderSpec_def connectedEntries_def Let_def comp_def)
qed

lemma aggregateLoop_items:
  "fst (aggregateLoop opn key remote req es (allItems, errs, s)) =
     allItems @ concat (map (itemsOf remote opn key req) (filter isConnected es))"
proof (induction es arbitrary: allItems errs s)
  case Nil
  then show ?case by simp
next
  case (Cons e es)
  obtain cid info where e: "e = (cid, info)" by (cases e)
  show ?case using Cons.IH e
    by (simp add: Let_def isConnected_def itemsOf_def outcomeOf_def split: sum.splits JsVal.splits)
qed

lemma aggregateLoop_errors:
  "fst (snd (aggregateLoop opn key remote req es (allItems, errs, s))) =
     errs @ map (\<lambda>e. (fst e, errorOf remote opn req e))
              (filter (rejects remote opn req) (filter isConnected es))"
proof (induction es arbitrary: allItems errs s)
  case Nil
  then show ?case by simp
next
  case (Cons e es)
  obtain cid info where e: "e = (cid, info)" by (cases e)
  show ?case using Cons.IH e
    by (simp add: Let_def isConnected_def rejects_def errorOf_def outcomeOf_def
        split: sum.splits JsVal.splits)
qed

lemma aggregateLoop_log:
  "remoteLog (snd (snd (aggregateLoop opn key remote req es (allItems, errs, s)))) =
     remoteLog s @ map (callOf opn req) (filter isConnected es)"
proof (induction es arbitrary: allItems errs s)
  case Nil
  then show ?case by simp
next
  case (Cons e es)
  obtain cid info where e: "e = (cid, info)" by (cases e)
  show ?case using Cons.IH e
    by (simp add: Let_def isConnected_def callOf_def logCall_def emit_def updateClient_def
        split: sum.splits JsVal.splits)
qed

lemma aggregateLoop_emitted:
  "emitted (snd (snd (aggregateLoop opn key remote req es (allItems, errs, s)))) =
     emitted s @ map (operationErrorOf remote opn req)
                   (filter (rejects remote opn req) (filter isConnected es))"
proof (induction es arbitrary: allItems errs s)
  case Nil
  then show ?case by simp
next
  case (Cons e es)
  obtain cid info where e: "e = (cid, info)" by (cases e)
  show ?case using Cons.IH e
    by (simp add: Let_def isConnected_def rejects_def errorOf_def outcomeOf_def operationErrorOf_def
        logCall_def emit_def updateClient_def split: sum.splits JsVal.splits)
qed

lemma aggregate_result:
  "fst (aggregate opn key failure timeout remote s) =
     (let req = [(''timeout'', optNum (orNum timeout (defaultTimeout (config s))))];
          failed = filter (rejects remote opn req) (connectedEntries s);
          allItems = concat (map (itemsOf remote opn key req) (connectedEntries s))
      in if failed \<noteq> [] \<and> allItems = []
         then Inl (AggregateError (map (errorOf remote opn req) failed) failure)
         else Inr allItems)"
proof -
  let ?req = "[(''timeout'', optNum (orNum timeout (defaultTimeout (config s))))]"
  let ?r = "aggregateLoop opn key remote ?req (clients s) ([], [], s)"
  have "fst ?r = concat (map (itemsOf remote opn key ?req) (connectedEntries s))"
    by (simp add: aggregateLoop_items connectedEntries_def)
  moreover have "fst (snd ?r) = map (\<lambda>e. (fst e, errorOf remote opn ?req e))
      (filter (rejects remote opn ?req) (connectedEntries s))"
    by (simp add: aggregateLoop_errors connectedEntries_def)
  ultimately show ?thesis
    by (cases ?r) (simp add: aggregate_def Let_def comp_def)
qed

lemma aggregate_log:
  "remoteLog (snd (aggregate opn key failure timeout remote s)) =
     remoteLog s @ map (callOf opn [(''timeout'', optNum (orNum timeout (defaultTimeout (config s))))])
                     (connectedEntries s)"
proof -
  let ?req = "[(''timeout'', optNum (orNum timeout (defaultTimeout (config s))))]"
  let ?r = "aggregateLoop opn key remote ?req (clients s) ([], [], s)"
  have "remoteLog (snd (snd ?r)) = remoteLog s @ map (callOf opn ?req) (connectedEntries s)"
    by (simp add: aggregateLoop_log connectedEntries_def)
  then show ?thesis
    by (cases ?r) (simp add: aggregate_def Let_def)
qed

lemma aggregate_emitted:
  "emitted (snd (aggregate opn key failure timeout remote s)) =
     emitted s @ map (operationErrorOf remote opn [(''timeout'', optNum (orNum timeout (defaultTimeout (config s))))])
                   (filter (rejects remote opn [(''timeout'', optNum (orNum timeout (defaultTimeout (config s))))])
                      (connectedEntries s))"
proof -
  let ?req = "[(''timeout'', optNum (orNum timeout (defaultTimeout (config s))))]"
  let ?r = "aggregateLoop opn key remote ?req (clients s) ([], [], s)"
  have "emitted (snd (snd ?r)) = emitted s @ map (operationErrorOf remote opn ?req)
      (filter (rejects remote opn ?req) (connectedEntries s))"
    by (simp add: aggregateLoop_emitted connectedEntries_def)
  then show ?thesis
    by (cases ?r) (simp add: aggregate_def Let_def)
qed

section \<open>First-responder queries\<close>

lemma getPrompt_spec:
  "getPrompt promptName args timeout remote s =
     firstResponderSpec ''getPrompt'' (getPromptRequest promptName args timeout s) (\<lambda>res. res)
       (''Prompt '' @ dq @ promptName @ dq @ '' not found in any client'') remote s"
  unfolding getPrompt_def Let_def
  by (simp only: firstLoop_spec [symmetric] split: prod.splits)

lemma readResource_spec:
  "readResource resourceUri timeout remote s =
     firstResponderSpec ''readResource'' (readResourceRequest resourceUri timeout s) (\<lambda>res. res)
       (''Resource '' @ dq @ resourceUri @ dq @ '' not found in any client'') remote s"
  unfolding readResource_def Let_def
  by (simp only: firstLoop_spec [symmetric] split: prod.splits)

lemma callTool_spec:
  "callTool toolName args timeout remote s =
     firstResponderSpec ''callTool'' (callToolRequest toolName args timeout s) toolResponse
       (''Tool '' @ dq @ toolName @ dq @ '' not found in any client'') remote s"
  unfolding callTool_def Let_def
  by (simp only: firstLoop_spec [symmetric] split: prod.splits)

text \<open>
  C2: \<^verbatim>\<open>getPrompt\<close>, \<^verbatim>\<open>readResource\<close> and \<^verbatim>\<open>callTool\<close> are the first-responder contract:
  the connected records are visited in store (insertion) order; the result of the first
  record whose remote call resolves is returned (by \<^verbatim>\<open>callTool\<close> as
  \<^verbatim>\<open>{ result: result.result, ...result }\<close>) and no record after it is invoked; every failure
  before it is collected and emitted as operationError; when no record resolves, the call
  throws an AggregateError over the errors of all attempts whose message names the prompt,
  resource or tool.
\<close>

theorem first_responder_order:
  "getPrompt promptName args timeout remote s =
     firstResponderSpec ''getPrompt'' (getPromptRequest promptName args timeout s) (\<lambda>res. res)
       (''Prompt '' @ dq @ promptName @ dq @ '' not found in any client'') remote s
   \<and> readResource resourceUri timeout remote s =
     firstResponderSpec ''readResource'' (readResourceRequest resourceUri timeout s) (\<lambda>res. res)
       (''Resource '' @ dq @ resourceUri @ dq @ '' not found in any client'') remote s
   \<and> callTool toolName args timeout remote s =
     firstResponderSpec ''callTool'' (callToolRequest toolName args timeout s) toolResponse
       (''Tool '' @ dq @ toolName @ dq @ '' not found in any client'') remote s"
  using getPrompt_spec readResource_spec callTool_spec by blast

theorem first_responder_order_witness:
  "fst (callTool ''echo'' [(''message'', JStr ''hi'')] None remoteBetaOnly exampleAlphaBeta) =
     Inr [(''result'', JUndefined), (''content'', JStr ''hi'')]
   \<and> map callClient (newCalls exampleAlphaBeta
         (snd (callTool ''echo'' [(''message'', JStr ''hi'')] None remoteBetaOnly exampleAlphaBeta))) =
       [''client-1'', ''client-2'']
   \<and> newEvents exampleAlphaBeta
         (snd (callTool ''echo'' [(''message'', JStr ''hi'')] None remoteBetaOnly exampleAlphaBeta)) =
       [OperationError ''callTool'' ''client-1'' ''alpha'' (Error ''no such tool'')]
   \<and> map callClient (newCalls exampleAlphaBeta
         (snd (readResource ''file:///a'' None remoteEcho exampleAlphaBeta))) = [''client-1'']"
proof -
  let ?req = "callToolRequest ''echo'' [(''message'', JStr ''hi'')] None exampleAlphaBeta"
  let ?msg = "''Tool '' @ dq @ ''echo'' @ dq @ '' not found in any client''"
  let ?spec = "firstResponderSpec ''callTool'' ?req toolResponse ?msg remoteBetaOnly exampleAlphaBeta"
  let ?rreq = "readResourceRequest ''file:///a'' None exampleAlphaBeta"
  let ?rmsg = "''Resource '' @ dq @ ''file:///a'' @ dq @ '' not found in any client''"
  let ?rspec = "firstResponderSpec ''readResource'' ?rreq (\<lambda>res. res) ?rmsg remoteEcho exampleAlphaBeta"
  have code: "callTool ''echo'' [(''message'', JStr ''hi'')] None remoteBetaOnly exampleAlphaBeta = ?spec"
    and rcode: "readResource ''file:///a'' None remoteEcho exampleAlphaBeta = ?rspec"
    using first_responder_order [of _ _ None _ exampleAlphaBeta] by blast+
  have "fst ?spec = Inr [(''result'', JUndefined), (''content'', JStr ''hi'')]"
    by code_simp
  moreover have "map callClient (newCalls exampleAlphaBeta (snd ?spec)) = [''client-1'', ''client-2'']"
    by code_simp
  moreover have "newEvents exampleAlphaBeta (snd ?spec) =
      [OperationError ''callTool'' ''client-1'' ''alpha'' (Error ''no such tool'')]"
    by code_simp
  moreover have "map callClient (newCalls exampleAlphaBeta (snd ?rspec)) = [''client-1'']"
    by code_simp
  ultimately show ?thesis
    by (simp only: code rcode)
qed

lemma firstResponderSpec_none_connected:
  assumes "connectedEntries s = []"
  shows "firstResponderSpec opn req conv failure remote s = (Inl (AggregateError [] failure), s)"
  using assms by (simp add: firstResponderSpec_def)

text \<open>
  C10: in a state where no registered record is connected (the empty store included), each
  of \<^verbatim>\<open>getPrompt\<close>, \<^verbatim>\<open>readResource\<close> and \<^verbatim>\<open>callTool\<close> throws an AggregateError over
  zero errors, with the not-found message of the operation; it returns no value, invokes
  nothing and leaves the state as it was.
\<close>

theorem first_responder_nothing_connected:
  assumes "connectedEntries s = []"
  shows "getPrompt promptName args timeout remote s =
           (Inl (AggregateError [] (''Prompt '' @ dq @ promptName @ dq @ '' not found in any client'')), s)
       \<and> readResource resourceUri timeout remote s =
           (Inl (AggregateError [] (''Resource '' @ dq @ resourceUri @ dq @ '' not found in any client'')), s)
       \<and> callTool toolName args timeout remote s =
           (Inl (AggregateError [] (''Tool '' @ dq @ toolName @ dq @ '' not found in any client'')), s)"
  using assms
  by (simp add: getPrompt_spec readResource_spec callTool_spec firstResponderSpec_none_connected)

theorem first_responder_nothing_connected_witness:
  "connectedEntries exampleAlphaDown = []
   \<and> clients exampleAlphaDown \<noteq> []
   \<and> getPrompt ''greet'' [] None remoteEcho exampleAlphaDown =
        (Inl (AggregateError [] ''Prompt \"greet\" not found in any client''), exampleAlphaDown)
   \<and> readResource ''file:///a'' None remoteEcho exampleAlphaDown =
        (Inl (AggregateError [] (''Resource '' @ dq @ ''file:///a'' @ dq @ '' not found in any client'')), exampleAlphaDown)
   \<and> callTool ''echo'' [] None remoteEcho exampleAlphaDown =
        (Inl (AggregateError [] (''Tool '' @ dq @ ''echo'' @ dq @ '' not found in any client'')), exampleAlphaDown)"
proof -
  have down: "connectedEntries exampleAlphaDown = []"
    by code_simp
  have nonempty: "clients exampleAlphaDown \<noteq> []"
    by code_simp
  show ?thesis
    using down nonempty
      first_responder_nothing_connected [OF down, of "''greet''" "[]" None remoteEcho "''file:///a''" "''echo''"]
    by (simp add: dq_def)
qed

section \<open>Aggregating queries\<close>

text \<open>
  C1: the claim lets an aggregating query throw only when no remote call succeeded. The code
  tests the length of the collected items instead: here \<^verbatim>\<open>listTools\<close> runs over two
  connected records, the first resolves with an empty list of tools, the second rejects,
  and the call throws the AggregateError \<^verbatim>\<open>Failed to list tools from all clients\<close>.
\<close>

theorem listTools_empty_success_throws:
  "fst (listTools None remoteEmptyThenFail exampleAlphaBeta) =
     Inl (AggregateError [Error ''down''] ''Failed to list tools from all clients'')
   \<and> map callClient (newCalls exampleAlphaBeta (snd (listTools None remoteEmptyThenFail exampleAlphaBeta)))
       = [''client-1'', ''client-2'']
   \<and> outcomeOf remoteEmptyThenFail ''listTools'' [(''timeout'', JNum 30000)] (hd (clients exampleAlphaBeta))
       = Inr [(''tools'', JArr [])]"
  by code_simp

section \<open>Disconnected records\<close>

lemma connectedEntries_withoutDisconnected [simp]:
  "connectedEntries (withoutDisconnected s) = connectedEntries s"
  by (simp add: connectedEntries_def withoutDisconnected_def)

lemma config_withoutDisconnected [simp]: "config (withoutDisconnected s) = config s"
  by (simp add: withoutDisconnected_def)

lemma remoteLog_withoutDisconnected [simp]: "remoteLog (withoutDisconnected s) = remoteLog s"
  by (simp add: withoutDisconnected_def)

lemma aggregate_newCalls:
  "newCalls s (snd (aggregate opn key failure timeout remote s)) =
     map (callOf opn [(''timeout'', optNum (orNum timeout (defaultTimeout (config s))))]) (connectedEntries s)"
  by (simp add: newCalls_def aggregate_log)

lemma firstResponderSpec_newCalls:
  "newCalls s (snd (firstResponderSpec opn req conv failure remote s)) =
     map (callOf opn req)
       (takeWhile (rejects remote opn req) (connectedEntries s) @
        take 1 (dropWhile (rejects remote opn req) (connectedEntries s)))"
  by (cases "dropWhile (rejects remote opn req) (connectedEntries s)")
     (simp_all add: newCalls_def firstResponderSpec_def Let_def del: dropWhile_eq_Nil_conv)

lemma firstResponderSpec_result:
  "fst (firstResponderSpec opn req conv failure remote s) =
     (case dropWhile (rejects remote opn req) (connectedEntries s) of
        [] \<Rightarrow> Inl (AggregateError (map (errorOf remote opn req)
                      (takeWhile (rejects remote opn req) (connectedEntries s))) failure)
      | e # later \<Rightarrow> Inr (conv (projr (outcomeOf remote opn req e))))"
  by (cases "dropWhile (rejects remote opn req) (connectedEntries s)")
     (simp_all add: firstResponderSpec_def Let_def del: dropWhile_eq_Nil_conv)

lemma invoked_subset:
  "set (takeWhile P xs @ take 1 (dropWhile P xs)) \<subseteq> set xs"
proof -
  have "set (takeWhile P xs) \<subseteq> set xs"
    by (auto dest: set_takeWhileD)
  moreover have "set (take 1 (dropWhile P xs)) \<subseteq> set xs"
    by (meson set_take_subset set_dropWhileD subset_iff)
  ultimately show ?thesis by simp
qed

lemma callClient_callOf: "callClient ` callOf opn req ` A = fst ` A"
  by (simp add: image_image callOf_def)

lemma aggregate_only_connected:
  "callClient ` set (newCalls s (snd (aggregate opn key failure timeout remote s))) \<subseteq> fst ` set (connectedEntries s)"
  by (simp add: aggregate_newCalls callClient_callOf)

lemma firstResponderSpec_only_connected:
  "callClient ` set (newCalls s (snd (firstResponderSpec opn req conv failure remote s))) \<subseteq> fst ` set (connectedEntries s)"
proof -
  have "fst ` set (takeWhile (rejects remote opn req) (connectedEntries s) @
                  take 1 (dropWhile (rejects remote opn req) (connectedEntries s)))
        \<subseteq> fst ` set (connectedEntries s)"
    by (rule image_mono) (rule invoked_subset)
  then show ?thesis
    unfolding firstResponderSpec_newCalls set_map callClient_callOf .
qed

lemma aggregate_withoutDisconnected:
  "fst (aggregate opn key failure timeout remote (withoutDisconnected s)) =
     fst (aggregate opn key failure timeout remote s)"
  "newCalls (withoutDisconnected s) (snd (aggregate opn key failure timeout remote (withoutDisconnected s))) =
     newCalls s (snd (aggregate opn key failure timeout remote s))"
  by (simp_all add: aggregate_result aggregate_newCalls)

lemma request_withoutDisconnected [simp]:
  "getPromptRequest promptName args timeout (withoutDisconnected s) = getPromptRequest promptName args timeout s"
  "readResourceRequest resourceUri timeout (withoutDisconnected s) = readResourceRequest resourceUri timeout s"
  "callToolRequest toolName args timeout (withoutDisconnected s) = callToolRequest toolName args timeout s"
  by (simp_all add: getPromptRequest_def readResourceRequest_def callToolRequest_def Let_def)

lemma firstResponderSpec_withoutDisconnected:
  "fst (firstResponderSpec opn req conv failure remote (withoutDisconnected s)) =
     fst (firstResponderSpec opn req conv failure remote s)"
  "newCalls (withoutDisconnected s) (snd (firstResponderSpec opn req conv failure remote (withoutDisconnected s))) =
     newCalls s (snd (firstResponderSpec opn req conv failure remote s))"
  by (simp_all add: firstResponderSpec_result firstResponderSpec_newCalls cong: list.case_cong)

lemma snd_apfst [simp]: "snd (apfst f p) = snd p"
  by (cases p) simp

lemma fst_apfst [simp]: "fst (apfst f p) = f (fst p)"
  by (cases p) simp

text \<open>
  C3: a fan-out query, aggregating or first-responder, invokes remote operations only on
  records that are connected in the state it runs in, and its result and its invocations
  are those of the same query on the store without the disconnected records. A record is
  therefore left out for as long as its \<open>connected\<close> field is false.
\<close>

theorem disconnected_excluded:
  "callClient ` set (newCalls s (snd (fanOut q remote s))) \<subseteq> fst ` set (connectedEntries s)
   \<and> fst (fanOut q remote s) = fst (fanOut q remote (withoutDisconnected s))
   \<and> newCalls s (snd (fanOut q remote s)) =
       newCalls (withoutDisconnected s) (snd (fanOut q remote (withoutDisconnected s)))"
proof (cases q)
  case (QListPrompts timeout)
  then show ?thesis
    by (simp add: listPrompts_def aggregate_only_connected aggregate_withoutDisconnected)
next
  case (QListResources timeout)
  then show ?thesis
    by (simp add: listResources_def aggregate_only_connected aggregate_withoutDisconnected)
next
  case (QListTools timeout)
  then show ?thesis
    by (simp add: listTools_def aggregate_only_connected aggregate_withoutDisconnected)
next
  case (QGetPrompt promptName args timeout)
  then show ?thesis
    by (simp add: getPrompt_spec firstResponderSpec_only_connected firstResponderSpec_withoutDisconnected)
next
  case (QReadResource resourceUri timeout)
  then show ?thesis
    by (simp add: readResource_spec firstResponderSpec_only_connected firstResponderSpec_withoutDisconnected)
next
  case (QCallTool toolName args timeout)
  then show ?thesis
    by (simp add: callTool_spec firstResponderSpec_only_connected firstResponderSpec_withoutDisconnected)
qed

theorem disconnected_excluded_witness:
  "map fst (clients exampleBetaDown) = [''client-1'', ''client-2'']
   \<and> map fst (connectedEntries exampleBetaDown) = [''client-1'']
   \<and> callClient ` set (newCalls exampleBetaDown (snd (fanOut (QListTools None) remoteEcho exampleBetaDown)))
        \<subseteq> fst ` set (connectedEntries exampleBetaDown)
   \<and> fst (fanOut (QListTools None) remoteEcho exampleBetaDown) =
       fst (fanOut (QListTools None) remoteEcho (withoutDisconnected exampleBetaDown))
   \<and> fst (fanOut (QListTools None) remoteEcho exampleBetaDown) = Inr (JArr [JStr ''alpha-client''])"
proof -
  have "map fst (clients exampleBetaDown) = [''client-1'', ''client-2'']"
    by code_simp
  moreover have "map fst (connectedEntries exampleBetaDown) = [''client-1'']"
    by code_simp
  moreover have "fst (fanOut (QListTools None) remoteEcho exampleBetaDown) = Inr (JArr [JStr ''alpha-client''])"
    by code_simp
  ultimately show ?thesis
    using disconnected_excluded [of exampleBetaDown "QListTools None" remoteEcho] by blast
qed

section \<open>Timeouts\<close>

lemma map_of_setProp: "map_of (setProp k v obj) k' = (if k' = k then Some v else map_of obj k')"
  by (induction obj) auto

lemma getProp_setProp: "getProp (setProp k v obj) k' = (if k' = k then v else getProp obj k')"
  by (simp add: getProp_def map_of_setProp)

lemma map_of_fold_setProp:
  "distinct (map fst b) \<Longrightarrow>
   map_of (fold (\<lambda>(k, v) acc. setProp k v acc) b a) k' =
     (case map_of b k' of Some v \<Rightarrow> Some v | None \<Rightarrow> map_of a k')"
proof (induction b arbitrary: a)
  case Nil
  then show ?case by simp
next
  case (Cons p b)
  obtain k v where p: "p = (k, v)" by (cases p)
  have "k \<notin> fst ` set b" using Cons.prems p by simp
  then have none: "map_of b k = None" by (simp add: map_of_eq_None_iff)
  show ?case using Cons p none
    by (simp add: map_of_setProp split: option.splits)
qed

lemma getProp_spread:
  "distinct (map fst b) \<Longrightarrow>
   getProp (spread a b) k = (case map_of b k of Some v \<Rightarrow> v | None \<Rightarrow> getProp a k)"
  by (simp add: getProp_def spread_def map_of_fold_setProp split: option.splits)

text \<open>What \<^verbatim>\<open>callTool\<close> returns reads, property by property, as the result of the remote call.\<close>

lemma toolResponse_reads:
  "distinct (map fst res) \<Longrightarrow> getProp (toolResponse res) k = getProp res k"
  by (simp add: toolResponse_def getProp_spread) (simp add: getProp_def split: option.splits)

lemma keys_setProp:
  "map fst (setProp k v obj) = (if k \<in> set (map fst obj) then map fst obj else map fst obj @ [k])"
  by (induction obj) (force+)

lemma distinct_setProp: "distinct (map fst obj) \<Longrightarrow> distinct (map fst (setProp k v obj))"
  by (simp add: keys_setProp)

lemma getPromptRequest_timeout:
  assumes "distinct (map fst args)"
  shows "getProp (getPromptRequest promptName args timeout s) ''timeout'' =
     (if truthyNum timeout then optNum timeout
      else if truthyNum (defaultTimeout (config s)) \<and> \<not> truthy (getProp args ''timeout'')
           then optNum (defaultTimeout (config s))
           else getProp args ''timeout'')"
proof -
  have outer: "getProp (spread [(''name'', JStr promptName)] obj) ''timeout'' = getProp obj ''timeout''"
    if "distinct (map fst obj)" for obj
    using that by (simp add: getProp_spread) (simp add: getProp_def split: option.splits)
  show ?thesis
    using assms
    by (simp add: getPromptRequest_def Let_def outer distinct_setProp getProp_setProp)
qed

lemma readResourceRequest_timeout:
  "getProp (readResourceRequest resourceUri timeout s) ''timeout'' =
     (if truthyNum (orNum timeout (defaultTimeout (config s)))
      then optNum (orNum timeout (defaultTimeout (config s))) else JUndefined)"
  by (simp add: readResourceRequest_def Let_def spread_def getProp_def orNum_def)

lemma callToolRequest_timeout:
  "(case getProp (callToolRequest toolName args timeout s) ''_meta'' of
      JObj meta \<Rightarrow> getProp meta ''timeout'' | _ \<Rightarrow> JUndefined) =
     (if truthyNum (orNum timeout (defaultTimeout (config s)))
      then optNum (orNum timeout (defaultTimeout (config s))) else JUndefined)"
  by (simp add: callToolRequest_def Let_def getProp_def orNum_def)

lemma requestTimeout_call:
  "c \<in> set (map (callOf opn req) es) \<Longrightarrow>
   requestTimeout c =
     (if opn = ''callTool''
      then (case getProp req ''_meta'' of JObj meta \<Rightarrow> getProp meta ''timeout'' | _ \<Rightarrow> JUndefined)
      else getProp req ''timeout'')"
  by (auto simp: requestTimeout_def callOf_def)

lemma aggregate_call_timeout:
  assumes "c \<in> set (newCalls s (snd (aggregate opn key failure timeout remote s)))" "opn \<noteq> ''callTool''"
  shows "requestTimeout c = optNum (orNum timeout (defaultTimeout (config s)))"
  using requestTimeout_call [OF assms(1) [unfolded aggregate_newCalls]] assms(2)
  by (simp add: getProp_def)

lemma readResource_call_timeout:
  assumes "c \<in> set (newCalls s (snd (readResource resourceUri timeout remote s)))"
  shows "requestTimeout c =
          (if truthyNum (orNum timeout (defaultTimeout (config s)))
           then optNum (orNum timeout (defaultTimeout (config s))) else JUndefined)"
  using requestTimeout_call [OF assms [unfolded readResource_spec firstResponderSpec_newCalls]]
  by (simp add: readResourceRequest_timeout)

lemma callTool_call_timeout:
  assumes "c \<in> set (newCalls s (snd (callTool toolName toolArgs timeout remote s)))"
  shows "requestTimeout c =
          (if truthyNum (orNum timeout (defaultTimeout (config s)))
           then optNum (orNum timeout (defaultTimeout (config s))) else JUndefined)"
  using requestTimeout_call [OF assms [unfolded callTool_spec firstResponderSpec_newCalls]]
  by (simp add: callToolRequest_timeout)

lemma getPrompt_call_timeout:
  assumes "c \<in> set (newCalls s (snd (getPrompt promptName args timeout remote s)))"
    and "distinct (map fst args)"
  shows "requestTimeout c =
             (if truthyNum timeout then optNum timeout
              else if truthyNum (defaultTimeout (config s)) \<and> \<not> truthy (getProp args ''timeout'')
                   then optNum (defaultTimeout (config s))
                   else getProp args ''timeout'')"
  using requestTimeout_call [OF assms(1) [unfolded getPrompt_spec firstResponderSpec_newCalls]]
  by (simp add: getPromptRequest_timeout [OF assms(2)])

text \<open>
  C9, as the code has it. The timeout of every remote call is the explicit argument when
  that is given and not zero, the configured \<open>defaultTimeout\<close> otherwise; the configured
  value is 30000 unless the constructor was given the key. Where that choice is undefined
  or zero, \<^verbatim>\<open>readResource\<close> and \<^verbatim>\<open>callTool\<close> attach no timeout, and the three list
  operations pass the choice as it is. \<^verbatim>\<open>getPrompt\<close> uses the configured default only
  when \<open>args\<close> carries no truthy timeout of its own, and otherwise leaves the one of
  \<open>args\<close> in place.
\<close>

theorem effective_timeout:
  "(\<forall>c \<in> set (newCalls s (snd (listPrompts timeout remote s)) @
              newCalls s (snd (listResources timeout remote s)) @
              newCalls s (snd (listTools timeout remote s))).
      requestTimeout c = optNum (orNum timeout (defaultTimeout (config s))))
   \<and> (\<forall>c \<in> set (newCalls s (snd (readResource resourceUri timeout remote s)) @
                newCalls s (snd (callTool toolName toolArgs timeout remote s))).
        requestTimeout c =
          (if truthyNum (orNum timeout (defaultTimeout (config s)))
           then optNum (orNum timeout (defaultTimeout (config s))) else JUndefined))
   \<and> (distinct (map fst args) \<longrightarrow>
        (\<forall>c \<in> set (newCalls s (snd (getPrompt promptName args timeout remote s))).
           requestTimeout c =
             (if truthyNum timeout then optNum timeout
              else if truthyNum (defaultTimeout (config s)) \<and> \<not> truthy (getProp args ''timeout'')
                   then optNum (defaultTimeout (config s))
                   else getProp args ''timeout'')))
   \<and> defaultTimeout (config (newManager cfg)) =
        (case defaultTimeoutKey cfg of None \<Rightarrow> Some 30000 | Some given \<Rightarrow> given)"
proof (intro conjI)
  show "\<forall>c \<in> set (newCalls s (snd (listPrompts timeout remote s)) @
              newCalls s (snd (listResources timeout remote s)) @
              newCalls s (snd (listTools timeout remote s))).
      requestTimeout c = optNum (orNum timeout (defaultTimeout (config s)))"
    by (auto simp: listPrompts_def listResources_def listTools_def dest!: aggregate_call_timeout)
  show "\<forall>c \<in> set (newCalls s (snd (readResource resourceUri timeout remote s)) @
                newCalls s (snd (callTool toolName toolArgs timeout remote s))).
        requestTimeout c =
          (if truthyNum (orNum timeout (defaultTimeout (config s)))
           then optNum (orNum timeout (defaultTimeout (config s))) else JUndefined)"
    using readResource_call_timeout callTool_call_timeout by auto
  show "distinct (map fst args) \<longrightarrow>
        (\<forall>c \<in> set (newCalls s (snd (getPrompt promptName args timeout remote s))).
           requestTimeout c =
             (if truthyNum timeout then optNum timeout
              else if truthyNum (defaultTimeout (config s)) \<and> \<not> truthy (getProp args ''timeout'')
                   then optNum (defaultTimeout (config s))
                   else getProp args ''timeout''))"
    using getPrompt_call_timeout by blast
  show "defaultTimeout (config (newManager cfg)) =
        (case defaultTimeoutKey cfg of None \<Rightarrow> Some 30000 | Some given \<Rightarrow> given)"
    by (simp add: newManager_def mergeConfig_def spreadKey_def DEFAULT_MANAGER_CONFIG_def)
qed

theorem effective_timeout_witness:
  "newCalls exampleAlpha (snd (listTools (Some 7) remoteEcho exampleAlpha)) \<noteq> []
   \<and> list_all (\<lambda>c. requestTimeout c = JNum 7)
        (newCalls exampleAlpha (snd (listTools (Some 7) remoteEcho exampleAlpha)))
   \<and> newCalls exampleAlpha (snd (callTool ''echo'' [] None remoteEcho exampleAlpha)) \<noteq> []
   \<and> list_all (\<lambda>c. requestTimeout c = JNum 30000)
        (newCalls exampleAlpha (snd (callTool ''echo'' [] None remoteEcho exampleAlpha)))
   \<and> distinct (map fst [(''timeout'', JNum 500)])
   \<and> newCalls exampleAlpha (snd (getPrompt ''greet'' [(''timeout'', JNum 500)] None remoteEcho exampleAlpha)) \<noteq> []
   \<and> list_all (\<lambda>c. requestTimeout c = JNum 500)
        (newCalls exampleAlpha (snd (getPrompt ''greet'' [(''timeout'', JNum 500)] None remoteEcho exampleAlpha)))"
proof -
  have keys: "distinct (map fst [(''timeout'', JNum 500)])"
    by simp
  have v7: "optNum (orNum (Some 7) (defaultTimeout (config exampleAlpha))) = JNum 7"
    by code_simp
  have vd: "(if truthyNum (orNum None (defaultTimeout (config exampleAlpha)))
             then optNum (orNum None (defaultTimeout (config exampleAlpha))) else JUndefined) = JNum 30000"
    by code_simp
  have vp: "(if truthyNum None then optNum None
             else if truthyNum (defaultTimeout (config exampleAlpha)) \<and>
                     \<not> truthy (getProp [(''timeout'', JNum 500)] ''timeout'')
                  then optNum (defaultTimeout (config exampleAlpha))
                  else getProp [(''timeout'', JNum 500)] ''timeout'') = JNum 500"
    by code_simp
  have n1: "newCalls exampleAlpha (snd (listTools (Some 7) remoteEcho exampleAlpha)) \<noteq> []"
    by code_simp
  have n2: "newCalls exampleAlpha (snd (callTool ''echo'' [] None remoteEcho exampleAlpha)) \<noteq> []"
    by code_simp
  have n3: "newCalls exampleAlpha (snd (getPrompt ''greet'' [(''timeout'', JNum 500)] None remoteEcho exampleAlpha)) \<noteq> []"
    by code_simp
  have a: "list_all (\<lambda>c. requestTimeout c = JNum 7)
        (newCalls exampleAlpha (snd (listTools (Some 7) remoteEcho exampleAlpha)))"
    using effective_timeout [of exampleAlpha "Some 7" remoteEcho] v7
    by (simp add: list_all_iff)
  have b: "list_all (\<lambda>c. requestTimeout c = JNum 30000)
        (newCalls exampleAlpha (snd (callTool ''echo'' [] None remoteEcho exampleAlpha)))"
    using effective_timeout [of exampleAlpha None remoteEcho _ "''echo''" "[]"] vd
    by (simp add: list_all_iff)
  have c: "list_all (\<lambda>c. requestTimeout c = JNum 500)
        (newCalls exampleAlpha (snd (getPrompt ''greet'' [(''timeout'', JNum 500)] None remoteEcho exampleAlpha)))"
    using effective_timeout [of exampleAlpha None remoteEcho _ _ _ "[(''timeout'', JNum 500)]" "''greet''"] vp keys
    by (simp add: list_all_iff)
  show ?thesis
    using keys n1 n2 n3 a b c by blast
qed

text \<open>
  C9 as stated fails for an explicit timeout of zero: the remote call carries the default
  30000, not 0. It fails for \<^verbatim>\<open>getPrompt\<close> without an explicit timeout when \<open>args\<close> has a
  timeout of its own: the remote call carries that one, not the default.
\<close>

theorem explicit_zero_timeout_ignored:
  "map requestTimeout (newCalls exampleAlpha (snd (listTools (Some 0) remoteEcho exampleAlpha))) = [JNum 30000]
   \<and> map requestTimeout (newCalls exampleAlpha (snd (callTool ''echo'' [] (Some 0) remoteEcho exampleAlpha))) = [JNum 30000]
   \<and> optNum (Some 0) \<noteq> JNum 30000
   \<and> map requestTimeout
         (newCalls exampleAlpha (snd (getPrompt ''greet'' [(''timeout'', JNum 500)] None remoteEcho exampleAlpha))) =
       [JNum 500]
   \<and> optNum (defaultTimeout (config exampleAlpha)) = JNum 30000"
  by code_simp

section \<open>What the lifecycle operations leave alone\<close>

lemma newEvents_emit [simp]: "emitted s' = emitted s \<Longrightarrow> newEvents s (emit e s') = [e]"
  by (simp add: newEvents_def emit_def)

lemma setup_frame [simp]:
  "clients (setupTransportErrorHandling tp cid sname s) = clients s"
  "serverNames (setupTransportErrorHandling tp cid sname s) = serverNames s"
  "nextClientId (setupTransportErrorHandling tp cid sname s) = nextClientId s"
  "config (setupTransportErrorHandling tp cid sname s) = config s"
  "reconnectTimers (setupTransportErrorHandling tp cid sname s) = reconnectTimers s"
  "emitted (setupTransportErrorHandling tp cid sname s) = emitted s"
  "timerQueue (setupTransportErrorHandling tp cid sname s) = timerQueue s"
  "timerSeq (setupTransportErrorHandling tp cid sname s) = timerSeq s"
  "clientSeq (setupTransportErrorHandling tp cid sname s) = clientSeq s"
  "remoteLog (setupTransportErrorHandling tp cid sname s) = remoteLog s"
  by (simp_all add: setupTransportErrorHandling_def Let_def)

lemma setup_hooks:
  "onerrorHook (setupTransportErrorHandling tp cid sname s) =
     (if onerrorHook s tp = Unset then (onerrorHook s)(tp := Installed cid sname) else onerrorHook s)"
  "oncloseHook (setupTransportErrorHandling tp cid sname s) =
     (if oncloseHook s tp = Unset then (oncloseHook s)(tp := Installed cid sname) else oncloseHook s)"
  by (simp_all add: setupTransportErrorHandling_def Let_def)

lemma emit_frame [simp]:
  "clients (emit e s) = clients s"
  "serverNames (emit e s) = serverNames s"
  "nextClientId (emit e s) = nextClientId s"
  "config (emit e s) = config s"
  "reconnectTimers (emit e s) = reconnectTimers s"
  "timerQueue (emit e s) = timerQueue s"
  "timerSeq (emit e s) = timerSeq s"
  "onerrorHook (emit e s) = onerrorHook s"
  "oncloseHook (emit e s) = oncloseHook s"
  "clientSeq (emit e s) = clientSeq s"
  "remoteLog (emit e s) = remoteLog s"
  by (simp_all add: emit_def)

lemma mapGet_mapSet: "mapGet (mapSet k v m) k' = (if k' = k then Some v else mapGet m k')"
  by (induction m) (auto simp: mapGet_def)

lemma newClient_frame [simp]:
  "clients (snd (newClient nm ver opts s)) = clients s"
  "emitted (snd (newClient nm ver opts s)) = emitted s"
  "timerQueue (snd (newClient nm ver opts s)) = timerQueue s"
  "timerSeq (snd (newClient nm ver opts s)) = timerSeq s"
  "reconnectTimers (snd (newClient nm ver opts s)) = reconnectTimers s"
  "fst (newClient nm ver opts s) = Client nm ver opts (clientSeq s)"
  by (simp_all add: newClient_def)

section \<open>A failed handshake\<close>

lemma addServer_failure:
  assumes "\<not> setHas (serverNames s) sname"
  shows "addServer tp sname clientConfig (Some thrown) s =
           (Inl (toError thrown),
            emit (ConnectionError sname (toError thrown))
              (setupTransportErrorHandling tp (clientIdOf (nextClientId s)) sname
                 (s\<lparr>nextClientId := nextClientId s + 1, clientSeq := clientSeq s + 1\<rparr>)))"
  using assms by (simp add: addServer_def Let_def newClient_def)

lemma addServer_success:
  assumes "\<not> setHas (serverNames s) sname"
  shows "fst (addServer tp sname clientConfig None s) = Inr (clientIdOf (nextClientId s))"
  using assms by (simp add: addServer_def Let_def newClient_def)

text \<open>
  C5, as the code has it. When the name is free and the handshake fails, \<^verbatim>\<open>addServer\<close> throws
  the underlying error (made an Error with \<^verbatim>\<open>String\<close> when it is not one) and emits one
  connectionError; no record is created, the name stays unregistered, no timer is touched,
  and a retry with the same name whose handshake succeeds is accepted. The attempt does
  consume an id: \<open>nextClientId\<close> has advanced, so the retry gets the next id.
\<close>

theorem addServer_handshake_failure:
  assumes "\<not> setHas (serverNames s) sname"
  shows "fst (addServer tp sname clientConfig (Some thrown) s) = Inl (toError thrown)
       \<and> newEvents s (snd (addServer tp sname clientConfig (Some thrown) s)) =
           [ConnectionError sname (toError thrown)]
       \<and> clients (snd (addServer tp sname clientConfig (Some thrown) s)) = clients s
       \<and> serverNames (snd (addServer tp sname clientConfig (Some thrown) s)) = serverNames s
       \<and> reconnectTimers (snd (addServer tp sname clientConfig (Some thrown) s)) = reconnectTimers s
       \<and> timerQueue (snd (addServer tp sname clientConfig (Some thrown) s)) = timerQueue s
       \<and> nextClientId (snd (addServer tp sname clientConfig (Some thrown) s)) = nextClientId s + 1
       \<and> fst (addServer tp' sname clientConfig' None (snd (addServer tp sname clientConfig (Some thrown) s))) =
           Inr (clientIdOf (nextClientId s + 1))"
proof -
  let ?s' = "snd (addServer tp sname clientConfig (Some thrown) s)"
  have free: "\<not> setHas (serverNames ?s') sname"
    using assms by (simp add: addServer_failure)
  have "fst (addServer tp' sname clientConfig' None ?s') = Inr (clientIdOf (nextClientId ?s'))"
    using free by (rule addServer_success)
  then show ?thesis
    using assms by (simp add: addServer_failure)
qed

theorem addServer_handshake_failure_witness:
  "\<not> setHas (serverNames exampleAlpha) ''beta''
   \<and> fst (addServer 1 ''beta'' [] (Some (ThrowValue (JStr ''refused''))) exampleAlpha) = Inl (Error ''refused'')
   \<and> newEvents exampleAlpha (snd (addServer 1 ''beta'' [] (Some (ThrowValue (JStr ''refused''))) exampleAlpha)) =
       [ConnectionError ''beta'' (Error ''refused'')]
   \<and> clients (snd (addServer 1 ''beta'' [] (Some (ThrowValue (JStr ''refused''))) exampleAlpha)) = clients exampleAlpha
   \<and> nextClientId (snd (addServer 1 ''beta'' [] (Some (ThrowValue (JStr ''refused''))) exampleAlpha)) = 3
   \<and> fst (addServer 1 ''beta'' [] None (snd (addServer 1 ''beta'' [] (Some (ThrowValue (JStr ''refused''))) exampleAlpha))) =
       Inr ''client-3''"
proof -
  have free: "\<not> setHas (serverNames exampleAlpha) ''beta''"
    by code_simp
  have err: "toError (ThrowValue (JStr ''refused'')) = Error ''refused''"
    by code_simp
  have nxt: "nextClientId exampleAlpha = 2"
    by code_simp
  have cid: "clientIdOf 3 = ''client-3''"
    by code_simp
  show ?thesis
    using free addServer_handshake_failure [OF free, of 1 "[]" "ThrowValue (JStr ''refused'')" 1 "[]"]
    by (simp add: err nxt cid)
qed

text \<open>
  C5 as stated fails: on a fresh manager a failed \<^verbatim>\<open>addServer\<close> moves \<open>nextClientId\<close> from 1
  to 2, the retry is given \<^verbatim>\<open>client-2\<close>, and the close hook of the transport is left bound
  to \<^verbatim>\<open>client-1\<close>.
\<close>

theorem failed_handshake_consumes_id:
  "nextClientId (newManager emptyConfig) = 1
   \<and> nextClientId (snd (addServer 0 ''alpha'' [] (Some (ThrowError (Error ''refused''))) (newManager emptyConfig))) = 2
   \<and> fst (addServer 0 ''alpha'' [] None
             (snd (addServer 0 ''alpha'' [] (Some (ThrowError (Error ''refused''))) (newManager emptyConfig)))) =
       Inr ''client-2''
   \<and> oncloseHook (newManager emptyConfig) 0 = Unset
   \<and> oncloseHook (snd (addServer 0 ''alpha'' [] (Some (ThrowError (Error ''refused''))) (newManager emptyConfig))) 0 =
       Installed ''client-1'' ''alpha''"
  by code_simp

section \<open>Reconnecting\<close>

lemma reconnectClient_unknown:
  "mapGet (clients s) cid = None \<Longrightarrow> reconnectClient cid connectResult s = (False, s)"
  by (simp add: reconnectClient_def)

lemma reconnectClient_connected:
  "mapGet (clients s) cid = Some info \<Longrightarrow> connected info \<Longrightarrow>
   reconnectClient cid connectResult s = (True, s)"
  by (simp add: reconnectClient_def)

lemma reconnectClient_success:
  assumes "mapGet (clients s) cid = Some info" "\<not> connected info"
  shows "reconnectClient cid None s =
           (True,
            emit (ClientReconnected cid (serverName info))
              ((setupTransportErrorHandling (transport info) cid (serverName info)
                  (s\<lparr>clientSeq := clientSeq s + 1\<rparr>))
               \<lparr>clients := mapSet cid
                   (info\<lparr>client := Client (serverName info @ ''-client'') ''1.0.0'' DEFAULT_CLIENT_CONFIG (clientSeq s),
                          connected := True, error := None\<rparr>) (clients s)\<rparr>))"
  using assms by (simp add: reconnectClient_def Let_def newClient_def)

lemma reconnectClient_failure:
  assumes "mapGet (clients s) cid = Some info" "\<not> connected info"
  shows "reconnectClient cid (Some thrown) s =
           (False,
            emit (ReconnectionError cid (toError thrown))
              (setupTransportErrorHandling (transport info) cid (serverName info)
                 (s\<lparr>clientSeq := clientSeq s + 1\<rparr>)))"
  using assms by (simp add: reconnectClient_def Let_def newClient_def)

text \<open>
  C7: \<^verbatim>\<open>reconnectClient\<close> returns false for an unknown id and true for a connected record, in
  both cases with the state untouched. For a disconnected record it constructs a new client
  (the next object identity) and connects it over the record's own transport: on success the
  record holds the new client, is connected, has no error, the other records are as before,
  clientReconnected is emitted and the result is true; on failure reconnectionError is
  emitted, the result is false, the store is unchanged (the record stays disconnected) and
  no timer is scheduled or cancelled.
\<close>

theorem reconnectClient_cases:
  "(mapGet (clients s) cid = None \<longrightarrow> reconnectClient cid connectResult s = (False, s))
   \<and> (\<forall>info. mapGet (clients s) cid = Some info \<and> connected info \<longrightarrow>
          reconnectClient cid connectResult s = (True, s))
   \<and> (\<forall>info. mapGet (clients s) cid = Some info \<and> \<not> connected info \<longrightarrow>
          fst (reconnectClient cid None s) = True
          \<and> mapGet (clients (snd (reconnectClient cid None s))) cid =
              Some (info\<lparr>client := Client (serverName info @ ''-client'') ''1.0.0'' DEFAULT_CLIENT_CONFIG (clientSeq s),
                         connected := True, error := None\<rparr>)
          \<and> (\<forall>other. other \<noteq> cid \<longrightarrow>
                 mapGet (clients (snd (reconnectClient cid None s))) other = mapGet (clients s) other)
          \<and> newEvents s (snd (reconnectClient cid None s)) = [ClientReconnected cid (serverName info)]
          \<and> fst (reconnectClient cid (Some thrown) s) = False
          \<and> clients (snd (reconnectClient cid (Some thrown) s)) = clients s
          \<and> newEvents s (snd (reconnectClient cid (Some thrown) s)) = [ReconnectionError cid (toError thrown)]
          \<and> timerQueue (snd (reconnectClient cid (Some thrown) s)) = timerQueue s
          \<and> timerSeq (snd (reconnectClient cid (Some thrown) s)) = timerSeq s
          \<and> reconnectTimers (snd (reconnectClient cid (Some thrown) s)) = reconnectTimers s)"
proof (intro conjI allI impI)
  show "reconnectClient cid connectResult s = (False, s)" if "mapGet (clients s) cid = None"
    using that by (rule reconnectClient_unknown)
next
  fix info
  assume "mapGet (clients s) cid = Some info \<and> connected info"
  then show "reconnectClient cid connectResult s = (True, s)"
    by (simp add: reconnectClient_connected)
next
  fix info
  assume a: "mapGet (clients s) cid = Some info \<and> \<not> connected info"
  then have ok: "reconnectClient cid None s =
           (True,
            emit (ClientReconnected cid (serverName info))
              ((setupTransportErrorHandling (transport info) cid (serverName info)
                  (s\<lparr>clientSeq := clientSeq s + 1\<rparr>))
               \<lparr>clients := mapSet cid
                   (info\<lparr>client := Client (serverName info @ ''-client'') ''1.0.0'' DEFAULT_CLIENT_CONFIG (clientSeq s),
                          connected := True, error := None\<rparr>) (clients s)\<rparr>))"
    by (simp add: reconnectClient_success)
  from a have ko: "reconnectClient cid (Some thrown) s =
           (False,
            emit (ReconnectionError cid (toError thrown))
              (setupTransportErrorHandling (transport info) cid (serverName info)
                 (s\<lparr>clientSeq := clientSeq s + 1\<rparr>)))"
    by (simp add: reconnectClient_failure)
  show "fst (reconnectClient cid None s) = True"
    by (simp add: ok)
  show "mapGet (clients (snd (reconnectClient cid None s))) cid =
              Some (info\<lparr>client := Client (serverName info @ ''-client'') ''1.0.0'' DEFAULT_CLIENT_CONFIG (clientSeq s),
                         connected := True, error := None\<rparr>)"
    by (simp add: ok mapGet_mapSet)
  show "mapGet (clients (snd (reconnectClient cid None s))) other = mapGet (clients s) other"
    if "other \<noteq> cid" for other
    using that by (simp add: ok mapGet_mapSet)
  show "newEvents s (snd (reconnectClient cid None s)) = [ClientReconnected cid (serverName info)]"
    by (simp add: ok)
  show "fst (reconnectClient cid (Some thrown) s) = False"
    by (simp add: ko)
  show "clients (snd (reconnectClient cid (Some thrown) s)) = clients s"
    by (simp add: ko)
  show "newEvents s (snd (reconnectClient cid (Some thrown) s)) = [ReconnectionError cid (toError thrown)]"
    by (simp add: ko)
  show "timerQueue (snd (reconnectClient cid (Some thrown) s)) = timerQueue s"
    by (simp add: ko)
  show "timerSeq (snd (reconnectClient cid (Some thrown) s)) = timerSeq s"
    by (simp add: ko)
  show "reconnectTimers (snd (reconnectClient cid (Some thrown) s)) = reconnectTimers s"
    by (simp add: ko)
qed

theorem reconnectClient_cases_witness:
  "mapGet (clients exampleAlpha) ''client-9'' = None
   \<and> reconnectClient ''client-9'' None exampleAlpha = (False, exampleAlpha)
   \<and> mapGet (clients exampleAlpha) ''client-1'' = Some (alphaInfo True)
   \<and> reconnectClient ''client-1'' None exampleAlpha = (True, exampleAlpha)
   \<and> mapGet (clients exampleAlphaDown) ''client-1'' = Some (alphaInfo False)
   \<and> fst (reconnectClient ''client-1'' None exampleAlphaDown) = True
   \<and> mapGet (clients (snd (reconnectClient ''client-1'' None exampleAlphaDown))) ''client-1'' =
       Some ((alphaInfo True)\<lparr>client := Client ''alpha-client'' ''1.0.0'' DEFAULT_CLIENT_CONFIG 1\<rparr>)
   \<and> newEvents exampleAlphaDown (snd (reconnectClient ''client-1'' None exampleAlphaDown)) =
       [ClientReconnected ''client-1'' ''alpha'']
   \<and> fst (reconnectClient ''client-1'' (Some (ThrowError (Error ''refused''))) exampleAlphaDown) = False
   \<and> clients (snd (reconnectClient ''client-1'' (Some (ThrowError (Error ''refused''))) exampleAlphaDown)) =
       clients exampleAlphaDown
   \<and> newEvents exampleAlphaDown
        (snd (reconnectClient ''client-1'' (Some (ThrowError (Error ''refused''))) exampleAlphaDown)) =
       [ReconnectionError ''client-1'' (Error ''refused'')]"
proof -
  have unknown: "mapGet (clients exampleAlpha) ''client-9'' = None"
    by code_simp
  have up: "mapGet (clients exampleAlpha) ''client-1'' = Some (alphaInfo True)"
    by code_simp
  have down: "mapGet (clients exampleAlphaDown) ''client-1'' = Some (alphaInfo False)"
    by code_simp
  have vals: "connected (alphaInfo True)" "\<not> connected (alphaInfo False)"
    "serverName (alphaInfo False) = ''alpha''" "clientSeq exampleAlphaDown = 1"
    "(alphaInfo False)\<lparr>client := Client (''alpha'' @ ''-client'') ''1.0.0'' DEFAULT_CLIENT_CONFIG 1,
        connected := True, error := None\<rparr> =
     (alphaInfo True)\<lparr>client := Client ''alpha-client'' ''1.0.0'' DEFAULT_CLIENT_CONFIG 1\<rparr>"
    "toError (ThrowError (Error ''refused'')) = Error ''refused''"
    by code_simp+
  show ?thesis
    using unknown up down vals
      reconnectClient_cases [of exampleAlpha "''client-9''" None]
      reconnectClient_cases [of exampleAlpha "''client-1''" None]
      reconnectClient_cases [of exampleAlphaDown "''client-1''" _ "ThrowError (Error ''refused'')"]
    by simp
qed

section \<open>Client ids are decimal numerals\<close>

lemma digitChar_inj: "a < 10 \<Longrightarrow> b < 10 \<Longrightarrow> digitChar a = digitChar b \<Longrightarrow> a = b"
proof -
  assume a: "a < 10" and b: "b < 10" and eq: "digitChar a = digitChar b"
  have d: "distinct ''0123456789''" by simp
  have "a < length ''0123456789''" "b < length ''0123456789''" using a b by simp_all
  with d eq show "a = b"
    unfolding digitChar_def by (simp only: nth_eq_iff_index_eq)
qed

lemma natDigits_nonempty: "natDigits n \<noteq> []"
  by (subst natDigits.simps) simp

lemma natDigits_inj: "natDigits n = natDigits m \<Longrightarrow> n = m"
proof (induction n arbitrary: m rule: natDigits.induct)
  case (1 n)
  show ?case
  proof (cases "n < 10")
    case True
    then have n: "natDigits n = [digitChar n]" by (subst natDigits.simps) simp
    show ?thesis
    proof (cases "m < 10")
      case m: True
      then have "natDigits m = [digitChar m]" by (subst natDigits.simps) simp
      with n "1.prems" have "digitChar n = digitChar m" by simp
      with True m show ?thesis by (rule digitChar_inj)
    next
      case False
      then have "natDigits m = natDigits (m div 10) @ [digitChar (m mod 10)]"
        by (subst natDigits.simps) simp
      with n "1.prems" have "natDigits (m div 10) = []" by simp
      then show ?thesis using natDigits_nonempty by blast
    qed
  next
    case False
    then have n: "natDigits n = natDigits (n div 10) @ [digitChar (n mod 10)]"
      by (subst natDigits.simps) simp
    show ?thesis
    proof (cases "m < 10")
      case True
      then have "natDigits m = [digitChar m]" by (subst natDigits.simps) simp
      with n "1.prems" have "natDigits (n div 10) = []" by simp
      then show ?thesis using natDigits_nonempty by blast
    next
      case m: False
      then have "natDigits m = natDigits (m div 10) @ [digitChar (m mod 10)]"
        by (subst natDigits.simps) simp
      with n "1.prems" have pre: "natDigits (n div 10) = natDigits (m div 10)"
        and lst: "digitChar (n mod 10) = digitChar (m mod 10)" by simp_all
      from "1.IH" [OF False pre] have "n div 10 = m div 10" .
      moreover have "n mod 10 = m mod 10"
        using lst by (intro digitChar_inj) simp_all
      ultimately show ?thesis
        by (metis div_mult_mod_eq)
    qed
  qed
qed

lemma clientIdOf_inj: "clientIdOf n = clientIdOf m \<Longrightarrow> n = m"
  by (simp add: clientIdOf_def natDigits_inj)

section \<open>What queries and lifecycle operations do to ids\<close>

lemma keys_mapSet:
  "map fst (mapSet k v m) = (if k \<in> set (map fst m) then map fst m else map fst m @ [k])"
  by (induction m) (force+)

lemma keys_updateClient [simp]: "map fst (clients (updateClient cid f s)) = map fst (clients s)"
  by (simp add: updateClient_def case_prod_unfold comp_def)

lemma updateClient_frame [simp]:
  "serverNames (updateClient cid f s) = serverNames s"
  "nextClientId (updateClient cid f s) = nextClientId s"
  "config (updateClient cid f s) = config s"
  "reconnectTimers (updateClient cid f s) = reconnectTimers s"
  "emitted (updateClient cid f s) = emitted s"
  "timerQueue (updateClient cid f s) = timerQueue s"
  "timerSeq (updateClient cid f s) = timerSeq s"
  "onerrorHook (updateClient cid f s) = onerrorHook s"
  "oncloseHook (updateClient cid f s) = oncloseHook s"
  "clientSeq (updateClient cid f s) = clientSeq s"
  "remoteLog (updateClient cid f s) = remoteLog s"
  by (simp_all add: updateClient_def)

lemma aggregateLoop_state:
  "\<exists>cl ev lg. snd (snd (aggregateLoop opn key remote req es (allItems, errs, s))) =
                 s\<lparr>clients := cl, emitted := ev, remoteLog := lg\<rparr>
              \<and> map fst cl = map fst (clients s)"
proof (induction es arbitrary: allItems errs s)
  case Nil
  have "s = s\<lparr>clients := clients s, emitted := emitted s, remoteLog := remoteLog s\<rparr>" by simp
  then show ?case by (metis aggregateLoop.simps(1) snd_conv)
next
  case (Cons e es)
  obtain cid info where e: "e = (cid, info)" by (cases e)
  show ?case
  proof (cases "connected info")
    case False
    then show ?thesis using Cons.IH e by simp
  next
    case True
    show ?thesis
    proof (cases "remote (client info) opn req")
      case (Inr res)
      let ?s1 = "logCall cid opn req s"
      obtain items where step: "aggregateLoop opn key remote req (e # es) (allItems, errs, s) =
          aggregateLoop opn key remote req es (items, errs, ?s1)"
        using True e Inr by (cases "getProp res key") (simp_all add: Let_def)
      from Cons.IH [of items errs ?s1] obtain cl ev lg where
        "snd (snd (aggregateLoop opn key remote req es (items, errs, ?s1))) =
           ?s1\<lparr>clients := cl, emitted := ev, remoteLog := lg\<rparr>"
        "map fst cl = map fst (clients ?s1)" by blast
      then have "snd (snd (aggregateLoop opn key remote req (e # es) (allItems, errs, s))) =
           s\<lparr>clients := cl, emitted := ev, remoteLog := lg\<rparr> \<and> map fst cl = map fst (clients s)"
        by (simp add: step logCall_def)
      then show ?thesis by blast
    next
      case (Inl thrown)
      let ?s3 = "emit (OperationError opn cid (serverName info) (toError thrown))
                   (updateClient cid (\<lambda>i. i\<lparr>error := Some (toError thrown)\<rparr>) (logCall cid opn req s))"
      have step: "aggregateLoop opn key remote req (e # es) (allItems, errs, s) =
          aggregateLoop opn key remote req es (allItems, errs @ [(cid, toError thrown)], ?s3)"
        using True e Inl by (simp add: Let_def)
      from Cons.IH [of allItems "errs @ [(cid, toError thrown)]" ?s3] obtain cl ev lg where
        "snd (snd (aggregateLoop opn key remote req es (allItems, errs @ [(cid, toError thrown)], ?s3))) =
           ?s3\<lparr>clients := cl, emitted := ev, remoteLog := lg\<rparr>"
        "map fst cl = map fst (clients ?s3)" by blast
      then have "snd (snd (aggregateLoop opn key remote req (e # es) (allItems, errs, s))) =
           s\<lparr>clients := cl, emitted := ev, remoteLog := lg\<rparr> \<and> map fst cl = map fst (clients s)"
        by (simp add: step logCall_def emit_def updateClient_def case_prod_unfold comp_def)
      then show ?thesis by blast
    qed
  qed
qed

lemma aggregate_state:
  "\<exists>cl ev lg. snd (aggregate opn key failure timeout remote s) =
                 s\<lparr>clients := cl, emitted := ev, remoteLog := lg\<rparr>
              \<and> map fst cl = map fst (clients s)"
proof -
  let ?r = "aggregateLoop opn key remote [(''timeout'', optNum (orNum timeout (defaultTimeout (config s))))]
              (clients s) ([], [], s)"
  have "snd (aggregate opn key failure timeout remote s) = snd (snd ?r)"
    by (cases ?r) (simp add: aggregate_def Let_def)
  then show ?thesis
    using aggregateLoop_state by simp
qed

lemma firstResponderSpec_state:
  "\<exists>ev lg. snd (firstResponderSpec opn req conv failure remote s) = s\<lparr>emitted := ev, remoteLog := lg\<rparr>"
proof (cases "dropWhile (rejects remote opn req) (connectedEntries s)")
  case Nil
  then have "snd (firstResponderSpec opn req conv failure remote s) =
      s\<lparr>emitted := emitted s @ map (operationErrorOf remote opn req)
                 (takeWhile (rejects remote opn req) (connectedEntries s)),
        remoteLog := remoteLog s @ map (callOf opn req)
                 (takeWhile (rejects remote opn req) (connectedEntries s) @ take 1 [])\<rparr>"
    by (simp add: firstResponderSpec_def Let_def del: dropWhile_eq_Nil_conv)
  then show ?thesis by blast
next
  case (Cons e later)
  then have "snd (firstResponderSpec opn req conv failure remote s) =
      s\<lparr>emitted := emitted s @ map (operationErrorOf remote opn req)
                 (takeWhile (rejects remote opn req) (connectedEntries s)),
        remoteLog := remoteLog s @ map (callOf opn req)
                 (takeWhile (rejects remote opn req) (connectedEntries s) @ take 1 (e # later))\<rparr>"
    by (simp add: firstResponderSpec_def Let_def del: dropWhile_eq_Nil_conv)
  then show ?thesis by blast
qed

lemma query_lifecycle:
  "lifecycleOf (snd (listPrompts timeout remote s)) = lifecycleOf s"
  "lifecycleOf (snd (listResources timeout remote s)) = lifecycleOf s"
  "lifecycleOf (snd (listTools timeout remote s)) = lifecycleOf s"
  "lifecycleOf (snd (getPrompt promptName args timeout remote s)) = lifecycleOf s"
  "lifecycleOf (snd (readResource resourceUri timeout remote s)) = lifecycleOf s"
  "lifecycleOf (snd (callTool toolName args timeout remote s)) = lifecycleOf s"
proof -
  have agg: "lifecycleOf (snd (aggregate opn key failure timeout remote s)) = lifecycleOf s"
    for opn key failure
    using aggregate_state [of opn key failure timeout remote s]
    by (auto simp: lifecycleOf_def)
  have fr: "lifecycleOf (snd (firstResponderSpec opn req conv failure remote s)) = lifecycleOf s"
    for opn req conv failure
    using firstResponderSpec_state [of opn req conv failure remote s]
    by (auto simp: lifecycleOf_def)
  show "lifecycleOf (snd (listPrompts timeout remote s)) = lifecycleOf s"
    "lifecycleOf (snd (listResources timeout remote s)) = lifecycleOf s"
    "lifecycleOf (snd (listTools timeout remote s)) = lifecycleOf s"
    by (simp_all add: listPrompts_def listResources_def listTools_def agg)
  show "lifecycleOf (snd (getPrompt promptName args timeout remote s)) = lifecycleOf s"
    "lifecycleOf (snd (readResource resourceUri timeout remote s)) = lifecycleOf s"
    "lifecycleOf (snd (callTool toolName args timeout remote s)) = lifecycleOf s"
    by (simp_all add: getPrompt_spec readResource_spec callTool_spec fr)
qed

lemma clearTimeout_frame [simp]:
  "clients (clearTimeout h s) = clients s"
  "serverNames (clearTimeout h s) = serverNames s"
  "nextClientId (clearTimeout h s) = nextClientId s"
  "config (clearTimeout h s) = config s"
  "reconnectTimers (clearTimeout h s) = reconnectTimers s"
  "emitted (clearTimeout h s) = emitted s"
  "timerSeq (clearTimeout h s) = timerSeq s"
  "onerrorHook (clearTimeout h s) = onerrorHook s"
  "oncloseHook (clearTimeout h s) = oncloseHook s"
  "timerQueue (clearTimeout h s) = filter (\<lambda>t. timerHandle t \<noteq> h) (timerQueue s)"
  by (simp_all add: clearTimeout_def)

lemma scheduleReconnect_frame [simp]:
  "clients (scheduleReconnect cid a s) = clients s"
  "serverNames (scheduleReconnect cid a s) = serverNames s"
  "nextClientId (scheduleReconnect cid a s) = nextClientId s"
  "config (scheduleReconnect cid a s) = config s"
  "emitted (scheduleReconnect cid a s) = emitted s"
  "onerrorHook (scheduleReconnect cid a s) = onerrorHook s"
  "oncloseHook (scheduleReconnect cid a s) = oncloseHook s"
  by (simp_all add: scheduleReconnect_def setTimeout_def Let_def split: option.splits)

lemma keySet_mapSet: "fst ` set (mapSet k v m) = insert k (fst ` set m)"
proof -
  have "set (map fst (mapSet k v m)) = insert k (set (map fst m))"
    by (simp only: keys_mapSet) auto
  then show ?thesis by simp
qed

lemma addServer_ids:
  "nextClientId s \<le> nextClientId (snd (addServer tp sname cc cr s))"
  "set (map fst (clients (snd (addServer tp sname cc cr s)))) \<subseteq>
     insert (clientIdOf (nextClientId s)) (set (map fst (clients s)))"
  "\<not> set (map fst (clients (snd (addServer tp sname cc cr s)))) \<subseteq> set (map fst (clients s)) \<Longrightarrow>
     nextClientId (snd (addServer tp sname cc cr s)) = nextClientId s + 1"
  by (auto simp: addServer_def Let_def newClient_def keySet_mapSet split: option.splits if_splits)

lemma reconnectClient_ids:
  "nextClientId (snd (reconnectClient cid cr s)) = nextClientId s"
  "map fst (clients (snd (reconnectClient cid cr s))) = map fst (clients s)"
proof -
  show "nextClientId (snd (reconnectClient cid cr s)) = nextClientId s"
    by (simp add: reconnectClient_def Let_def newClient_def split: option.splits)
  have "cid \<in> fst ` set (clients s)" if "mapGet (clients s) cid = Some info" for info
    using that by (metis mapGet_def map_of_SomeD image_eqI fst_conv)
  then show "map fst (clients (snd (reconnectClient cid cr s))) = map fst (clients s)"
    by (auto simp: reconnectClient_def Let_def newClient_def keys_mapSet split: option.splits)
qed

lemma transportOnError_ids:
  "nextClientId (transportOnError tp err s) = nextClientId s"
  "map fst (clients (transportOnError tp err s)) = map fst (clients s)"
  by (simp_all add: transportOnError_def split: Hook.splits option.splits)

lemma transportOnClose_ids:
  "nextClientId (transportOnClose tp s) = nextClientId s"
  "map fst (clients (transportOnClose tp s)) = map fst (clients s)"
  by (simp_all add: transportOnClose_def Let_def split: Hook.splits option.splits)

lemma hooks_serverNames:
  "serverNames (transportOnError tp err s) = serverNames s"
  "serverNames (transportOnClose tp s) = serverNames s"
  by (simp_all add: transportOnError_def transportOnClose_def Let_def split: Hook.splits option.splits)

lemma runCloseCalls_ids:
  "nextClientId (runCloseCalls tp calls s) = nextClientId s"
  "map fst (clients (runCloseCalls tp calls s)) = map fst (clients s)"
  "serverNames (runCloseCalls tp calls s) = serverNames s"
  by (induction tp calls s rule: runCloseCalls.induct;
      simp add: transportOnError_ids transportOnClose_ids hooks_serverNames)+

lemma cancelPending_frame [simp]:
  "clients (cancelPending cid s) = clients s"
  "serverNames (cancelPending cid s) = serverNames s"
  "nextClientId (cancelPending cid s) = nextClientId s"
  "config (cancelPending cid s) = config s"
  "timerSeq (cancelPending cid s) = timerSeq s"
  "onerrorHook (cancelPending cid s) = onerrorHook s"
  "oncloseHook (cancelPending cid s) = oncloseHook s"
  by (simp_all add: cancelPending_def split: option.splits)

lemma closing_ids:
  "nextClientId (closing cid info calls cr s) = nextClientId s"
  "map fst (clients (closing cid info calls cr s)) = map fst (clients s)"
  "serverNames (closing cid info calls cr s) = setDelete (serverName info) (serverNames s)"
  by (simp_all add: closing_def Let_def runCloseCalls_ids split: option.splits)

text \<open>removeClient of a registered id, in terms of its stages.\<close>

lemma removeClient_stages:
  assumes "mapGet (clients s) cid = Some info"
  shows "removeClient cid calls cr s =
           (True, emit (ClientRemoved cid (serverName info))
                    ((closing cid info calls cr s)
                       \<lparr>clients := mapDelete cid (clients (closing cid info calls cr s))\<rparr>))"
proof -
  have "cid \<in> set (map fst (clients s))"
    using assms by (metis mapGet_def map_of_SomeD image_eqI fst_conv set_map)
  then have "cid \<in> set (map fst (clients (closing cid info calls cr s)))"
    by (simp only: closing_ids)
  then have has: "mapHas (clients (closing cid info calls cr s)) cid"
    by (simp add: mapHas_def)
  have inner: "(let s' = clearTimeout h s in s'\<lparr>reconnectTimers := mapDelete cid (reconnectTimers s')\<rparr>) =
      (clearTimeout h s)\<lparr>reconnectTimers := mapDelete cid (reconnectTimers s)\<rparr>" for h
    by (simp add: Let_def)
  have s1: "(case mapGet (reconnectTimers s) cid of
               None \<Rightarrow> s
             | Some reconnectTimer \<Rightarrow>
                 (let s' = clearTimeout reconnectTimer s
                  in s'\<lparr>reconnectTimers := mapDelete cid (reconnectTimers s')\<rparr>)) = cancelPending cid s"
    by (simp only: inner cancelPending_def)
  have step: "removeClient cid calls cr s =
      (let s3 = closing cid info calls cr s;
           result = mapHas (clients s3) cid;
           s4 = s3\<lparr>clients := mapDelete cid (clients s3)\<rparr>
       in (result, if result then emit (ClientRemoved cid (serverName info)) s4 else s4))"
    by (simp only: removeClient_def assms option.case s1) (simp add: closing_def Let_def)
  show ?thesis
    using has by (simp add: step Let_def)
qed

lemma removeClient_unknown:
  "mapGet (clients s) cid = None \<Longrightarrow> removeClient cid calls cr s = (False, s)"
  by (simp add: removeClient_def)

lemma removeClient_ids:
  "nextClientId (snd (removeClient cid calls cr s)) = nextClientId s"
  "set (map fst (clients (snd (removeClient cid calls cr s)))) \<subseteq> set (map fst (clients s))"
proof -
  show "nextClientId (snd (removeClient cid calls cr s)) = nextClientId s"
    by (cases "mapGet (clients s) cid")
       (simp_all add: removeClient_unknown removeClient_stages closing_ids)
  have "set (map fst (mapDelete cid (clients (closing cid info calls cr s)))) \<subseteq> set (map fst (clients s))"
    for info
  proof -
    have "set (map fst (mapDelete cid m)) \<subseteq> set (map fst m)" for m :: "(ClientIdentifier \<times> ClientInfo) list"
      by (auto simp: mapDelete_def)
    from this [of "clients (closing cid info calls cr s)"] show ?thesis
      by (simp only: closing_ids)
  qed
  then show "set (map fst (clients (snd (removeClient cid calls cr s)))) \<subseteq> set (map fst (clients s))"
    by (cases "mapGet (clients s) cid")
       (simp_all add: removeClient_unknown removeClient_stages del: set_map)
qed

lemma fireTimer_ids:
  "nextClientId (fireTimer h cr s) = nextClientId s"
  "map fst (clients (fireTimer h cr s)) = map fst (clients s)"
proof -
  let ?s1 = "s\<lparr>timerQueue := filter (\<lambda>t'. timerHandle t' \<noteq> h) (timerQueue s)\<rparr>"
  have a: "nextClientId (snd (reconnectClient c cr ?s1)) = nextClientId s" for c
    by (simp add: reconnectClient_ids)
  have b: "map fst (clients (snd (reconnectClient c cr ?s1))) = map fst (clients s)" for c
    by (simp add: reconnectClient_ids)
  show "nextClientId (fireTimer h cr s) = nextClientId s"
    using a by (simp add: fireTimer_def Let_def case_prod_unfold split: option.splits)
  show "map fst (clients (fireTimer h cr s)) = map fst (clients s)"
    using b by (simp add: fireTimer_def Let_def case_prod_unfold split: option.splits)
qed

lemma lifecycle_next: "lifecycleOf s' = lifecycleOf s \<Longrightarrow> nextClientId s' = nextClientId s"
  by (simp add: lifecycleOf_def)

lemma lifecycle_keys: "lifecycleOf s' = lifecycleOf s \<Longrightarrow> map fst (clients s') = map fst (clients s)"
  by (simp add: lifecycleOf_def)

lemma query_ids:
  "nextClientId (snd (listPrompts timeout remote s)) = nextClientId s"
  "map fst (clients (snd (listPrompts timeout remote s))) = map fst (clients s)"
  "nextClientId (snd (listResources timeout remote s)) = nextClientId s"
  "map fst (clients (snd (listResources timeout remote s))) = map fst (clients s)"
  "nextClientId (snd (listTools timeout remote s)) = nextClientId s"
  "map fst (clients (snd (listTools timeout remote s))) = map fst (clients s)"
  "nextClientId (snd (getPrompt promptName args timeout remote s)) = nextClientId s"
  "map fst (clients (snd (getPrompt promptName args timeout remote s))) = map fst (clients s)"
  "nextClientId (snd (readResource resourceUri timeout remote s)) = nextClientId s"
  "map fst (clients (snd (readResource resourceUri timeout remote s))) = map fst (clients s)"
  "nextClientId (snd (callTool toolName args timeout remote s)) = nextClientId s"
  "map fst (clients (snd (callTool toolName args timeout remote s))) = map fst (clients s)"
  by (rule lifecycle_next lifecycle_keys, rule query_lifecycle)+

lemma exec_ids:
  "nextClientId s \<le> nextClientId (exec a s)"
  "set (map fst (clients (exec a s))) \<subseteq> insert (clientIdOf (nextClientId s)) (set (map fst (clients s)))"
  "\<not> set (map fst (clients (exec a s))) \<subseteq> set (map fst (clients s)) \<Longrightarrow>
     nextClientId (exec a s) = nextClientId s + 1"
proof -
  show "nextClientId s \<le> nextClientId (exec a s)"
    by (cases a)
      (simp_all add: addServer_ids reconnectClient_ids removeClient_ids query_ids
        transportOnError_ids transportOnClose_ids fireTimer_ids)
  show "set (map fst (clients (exec a s))) \<subseteq> insert (clientIdOf (nextClientId s)) (set (map fst (clients s)))"
  proof (cases a)
    case (AddServer tp sname cc cr)
    then show ?thesis using addServer_ids(2) [of tp sname cc cr s] by simp
  next
    case (RemoveClient cid calls cr)
    then show ?thesis using removeClient_ids(2) [of cid calls cr s] by auto
  qed (simp_all add: reconnectClient_ids query_ids transportOnError_ids transportOnClose_ids
        fireTimer_ids subset_insertI del: set_map)
  show "nextClientId (exec a s) = nextClientId s + 1"
    if grow: "\<not> set (map fst (clients (exec a s))) \<subseteq> set (map fst (clients s))"
  proof (cases a)
    case (AddServer tp sname cc cr)
    then show ?thesis using grow addServer_ids(3) [of tp sname cc cr s] by simp
  next
    case (RemoveClient cid calls cr)
    then show ?thesis using grow removeClient_ids(2) [of cid calls cr s] by simp
  qed (use grow in \<open>simp_all add: reconnectClient_ids query_ids transportOnError_ids
        transportOnClose_ids fireTimer_ids del: set_map\<close>)
qed

lemma idsIssued_exec: "idsIssued s \<Longrightarrow> idsIssued (exec a s)"
proof -
  assume inv: "idsIssued s"
  show "idsIssued (exec a s)"
    unfolding idsIssued_def list_all_iff
  proof
    fix k
    assume k: "k \<in> set (map fst (clients (exec a s)))"
    show "\<exists>n<nextClientId (exec a s). k = clientIdOf n"
    proof (cases "k \<in> set (map fst (clients s))")
      case True
      then obtain n where "n < nextClientId s" "k = clientIdOf n"
        using inv unfolding idsIssued_def list_all_iff by blast
      then show ?thesis using exec_ids(1) [of s a] by (intro exI [of _ n]) simp
    next
      case False
      with k exec_ids(2) [of a s] have new: "k = clientIdOf (nextClientId s)" by blast
      from False k have "\<not> set (map fst (clients (exec a s))) \<subseteq> set (map fst (clients s))"
        by blast
      then have "nextClientId (exec a s) = nextClientId s + 1" by (rule exec_ids(3))
      with new show ?thesis by (intro exI [of _ "nextClientId s"]) simp
    qed
  qed
qed

lemma run_snoc: "run (acts @ [a]) s = exec a (run acts s)"
  by (simp add: run_def)


lemma run_Nil [simp]: "run [] s = s"
  by (simp add: run_def)

lemma idsIssued_run: "idsIssued s \<Longrightarrow> idsIssued (run acts s)"
  by (induction acts rule: rev_induct) (simp_all add: run_snoc idsIssued_exec)

lemma nextClientId_run: "nextClientId s \<le> nextClientId (run acts s)"
proof (induction acts rule: rev_induct)
  case Nil
  then show ?case by simp
next
  case (snoc a acts)
  then show ?case using exec_ids(1) [of "run acts s" a] by (simp add: run_snoc)
qed

lemma idsIssued_new: "idsIssued (newManager cfg)"
  by (simp add: idsIssued_def newManager_def)

section \<open>Removal\<close>

lemma mapGet_mapDelete: "mapGet (mapDelete k m) k' = (if k' = k then None else mapGet m k')"
  by (induction m) (auto simp: mapGet_def mapDelete_def)

lemma mapGet_Some_mapHas: "mapGet m k = Some v \<Longrightarrow> mapHas m k"
  unfolding mapGet_def mapHas_def
  by (metis map_of_SomeD image_eqI fst_conv set_map)

lemma removeClient_known:
  assumes "mapGet (clients s) cid = Some info"
  shows "fst (removeClient cid closeCalls closeResult s) = True"
    and "serverNames (snd (removeClient cid closeCalls closeResult s)) = setDelete (serverName info) (serverNames s)"
    and "mapGet (clients (snd (removeClient cid closeCalls closeResult s))) cid = None"
    and "nextClientId (snd (removeClient cid closeCalls closeResult s)) = nextClientId s"
  by (simp_all add: removeClient_stages [OF assms] closing_ids mapGet_mapDelete)

lemma addServer_Inr:
  "fst (addServer tp sname cc cr s) = Inr newId \<Longrightarrow> newId = clientIdOf (nextClientId s)"
  by (auto simp: addServer_def Let_def newClient_def split: if_splits option.splits)

lemma idsIssued_known:
  assumes "idsIssued s" "mapGet (clients s) cid = Some info"
  shows "\<exists>n < nextClientId s. cid = clientIdOf n"
proof -
  have "cid \<in> set (map fst (clients s))"
    using mapGet_Some_mapHas [OF assms(2)] by (simp add: mapHas_def)
  then show ?thesis
    using assms(1) unfolding idsIssued_def list_all_iff by blast
qed

text \<open>
  C8: in every state a manager can reach, \<^verbatim>\<open>removeClient\<close> of a registered id returns true
  and frees the record's server name; \<^verbatim>\<open>addServer\<close> with that name then succeeds (given its
  handshake does) and is assigned an id different from the removed one; a second
  \<^verbatim>\<open>removeClient\<close> of the id returns false; and whatever happens afterwards, no later
  \<^verbatim>\<open>addServer\<close> is ever assigned the removed id.
\<close>

theorem removeClient_frees_name:
  assumes "mapGet (clients (run acts (newManager cfg))) cid = Some info"
  shows "fst (removeClient cid closeCalls closeResult (run acts (newManager cfg))) = True
       \<and> \<not> setHas (serverNames (snd (removeClient cid closeCalls closeResult (run acts (newManager cfg))))) (serverName info)
       \<and> mapGet (clients (snd (removeClient cid closeCalls closeResult (run acts (newManager cfg))))) cid = None
       \<and> fst (addServer tp (serverName info) clientConfig None
                 (snd (removeClient cid closeCalls closeResult (run acts (newManager cfg))))) =
           Inr (clientIdOf (nextClientId (run acts (newManager cfg))))
       \<and> clientIdOf (nextClientId (run acts (newManager cfg))) \<noteq> cid
       \<and> fst (removeClient cid closeCalls' closeResult'
                 (snd (removeClient cid closeCalls closeResult (run acts (newManager cfg))))) = False
       \<and> (\<forall>later tp' sname' clientConfig' connectResult' newId.
             fst (addServer tp' sname' clientConfig' connectResult'
                    (run later (snd (removeClient cid closeCalls closeResult (run acts (newManager cfg)))))) = Inr newId
             \<longrightarrow> newId \<noteq> cid)"
proof -
  let ?s = "run acts (newManager cfg)"
  let ?s1 = "snd (removeClient cid closeCalls closeResult ?s)"
  have inv: "idsIssued ?s"
    by (rule idsIssued_run) (rule idsIssued_new)
  from idsIssued_known [OF inv assms] obtain n where n: "n < nextClientId ?s" "cid = clientIdOf n"
    by blast
  have removed: "fst (removeClient cid closeCalls closeResult ?s) = True"
    using assms by (rule removeClient_known)
  have names: "serverNames ?s1 = setDelete (serverName info) (serverNames ?s)"
    using assms by (rule removeClient_known)
  have nxt: "nextClientId ?s1 = nextClientId ?s"
    by (rule removeClient_ids)
  have free: "\<not> setHas (serverNames ?s1) (serverName info)"
    by (simp add: names setHas_def setDelete_def)
  have gone: "mapGet (clients ?s1) cid = None"
    using assms by (rule removeClient_known)
  have again: "fst (addServer tp (serverName info) clientConfig None ?s1) = Inr (clientIdOf (nextClientId ?s))"
    using addServer_success [OF free, of tp clientConfig] by (simp add: nxt)
  have fresh: "clientIdOf m \<noteq> cid" if "nextClientId ?s \<le> m" for m
  proof
    assume "clientIdOf m = cid"
    then have "m = n" using n(2) by (simp add: clientIdOf_inj)
    with that n(1) show False by simp
  qed
  have twice: "fst (removeClient cid closeCalls' closeResult' ?s1) = False"
    using gone by (simp add: removeClient_unknown)
  have later: "newId \<noteq> cid"
    if "fst (addServer tp' sname' clientConfig' connectResult' (run later ?s1)) = Inr newId"
    for later tp' sname' clientConfig' connectResult' newId
  proof -
    have eq: "newId = clientIdOf (nextClientId (run later ?s1))"
      using that by (rule addServer_Inr)
    have "nextClientId ?s1 \<le> nextClientId (run later ?s1)"
      by (rule nextClientId_run)
    then have "nextClientId ?s \<le> nextClientId (run later ?s1)"
      by (subst (asm) nxt)
    then have "clientIdOf (nextClientId (run later ?s1)) \<noteq> cid"
      by (rule fresh)
    then show ?thesis
      unfolding eq .
  qed
  have notsame: "clientIdOf (nextClientId ?s) \<noteq> cid"
    by (rule fresh) simp
  show ?thesis
  proof (intro conjI allI impI)
    show "fst (removeClient cid closeCalls closeResult ?s) = True" by (rule removed)
    show "\<not> setHas (serverNames ?s1) (serverName info)" by (rule free)
    show "mapGet (clients ?s1) cid = None" by (rule gone)
    show "fst (addServer tp (serverName info) clientConfig None ?s1) = Inr (clientIdOf (nextClientId ?s))"
      by (rule again)
    show "clientIdOf (nextClientId ?s) \<noteq> cid" by (rule notsame)
    show "fst (removeClient cid closeCalls' closeResult' ?s1) = False" by (rule twice)
    show "newId \<noteq> cid"
      if "fst (addServer tp' sname' clientConfig' connectResult' (run later ?s1)) = Inr newId"
      for later tp' sname' clientConfig' connectResult' newId
      using that by (rule later)
  qed
qed

theorem removeClient_frees_name_witness:
  "run exampleHistory (newManager emptyConfig) = exampleAlphaBeta
   \<and> mapGet (clients exampleAlphaBeta) ''client-1'' = Some (alphaInfo True)
   \<and> fst (removeClient ''client-1'' [CallsOnClose] None exampleAlphaBeta) = True
   \<and> \<not> setHas (serverNames (snd (removeClient ''client-1'' [CallsOnClose] None exampleAlphaBeta))) ''alpha''
   \<and> fst (addServer 2 ''alpha'' [] None (snd (removeClient ''client-1'' [CallsOnClose] None exampleAlphaBeta))) = Inr ''client-3''
   \<and> ''client-3'' \<noteq> ''client-1''
   \<and> fst (removeClient ''client-1'' [CallsOnClose] None (snd (removeClient ''client-1'' [CallsOnClose] None exampleAlphaBeta))) = False"
proof -
  have hist: "run exampleHistory (newManager emptyConfig) = exampleAlphaBeta"
    by (simp add: exampleHistory_def run_def exampleAlphaBeta_def exampleAlpha_def)
  have known: "mapGet (clients exampleAlphaBeta) ''client-1'' = Some (alphaInfo True)"
    by code_simp
  have vals: "serverName (alphaInfo True) = ''alpha''"
    "clientIdOf (nextClientId exampleAlphaBeta) = ''client-3''"
    by code_simp+
  note inst = removeClient_frees_name [of exampleHistory emptyConfig, unfolded hist, OF known,
      of "[CallsOnClose]" None 2 "[]" "[CallsOnClose]" None]
  have r1: "fst (removeClient ''client-1'' [CallsOnClose] None exampleAlphaBeta) = True"
    by (rule inst [THEN conjunct1])
  have r2: "\<not> setHas (serverNames (snd (removeClient ''client-1'' [CallsOnClose] None exampleAlphaBeta))) ''alpha''"
    using inst [THEN conjunct2, THEN conjunct1] unfolding vals .
  have r3: "fst (addServer 2 ''alpha'' [] None (snd (removeClient ''client-1'' [CallsOnClose] None exampleAlphaBeta))) = Inr ''client-3''"
    using inst [THEN conjunct2, THEN conjunct2, THEN conjunct2, THEN conjunct1] unfolding vals .
  have r4: "''client-3'' \<noteq> ''client-1''"
    by simp
  have r5: "fst (removeClient ''client-1'' [CallsOnClose] None (snd (removeClient ''client-1'' [CallsOnClose] None exampleAlphaBeta))) = False"
    by (rule inst [THEN conjunct2, THEN conjunct2, THEN conjunct2, THEN conjunct2, THEN conjunct2, THEN conjunct1])
  from hist known r1 r2 r3 r4 r5 show ?thesis
    by (intro conjI)
qed

section \<open>Timers\<close>




lemma distinct_map_filter_handles:
  "distinct (map timerHandle q) \<Longrightarrow> distinct (map timerHandle (filter P q))"
  by (rule distinct_map_filter)



lemma attempt_limit:
  "(int a \<ge> (case orNum (maxReconnectAttempts (config s)) (Some 0) of None \<Rightarrow> 0 | Some m \<Rightarrow> m))
     = (\<not> a < maxAttempts s)"
  by (auto simp: maxAttempts_def split: option.splits)

lemma scheduleReconnect_unfold:
  "scheduleReconnect cid a s =
     (let s1 = (case mapGet (reconnectTimers s) cid of
                  None \<Rightarrow> s | Some existingTimer \<Rightarrow> clearTimeout existingTimer s)
      in if \<not> a < maxAttempts s then s1
         else s1\<lparr>timerQueue := timerQueue s1 @
                    [\<lparr>timerHandle = timerSeq s, timerDelay = reconnectDelay (config s),
                      timerClient = cid, timerAttempt = a\<rparr>],
                 timerSeq := timerSeq s + 1,
                 reconnectTimers := mapSet cid (timerSeq s) (reconnectTimers s)\<rparr>)"
proof -
  let ?s1 = "case mapGet (reconnectTimers s) cid of
                  None \<Rightarrow> s | Some existingTimer \<Rightarrow> clearTimeout existingTimer s"
  have same: "config ?s1 = config s" "timerSeq ?s1 = timerSeq s" "reconnectTimers ?s1 = reconnectTimers s"
    by (simp_all split: option.splits add: clearTimeout_def)
  have lim: "(int a \<ge> (case orNum (maxReconnectAttempts (config ?s1)) (Some 0) of None \<Rightarrow> 0 | Some m \<Rightarrow> m))
     = (\<not> a < maxAttempts s)"
    by (simp only: same attempt_limit)
  show ?thesis
    unfolding scheduleReconnect_def Let_def lim
    by (simp add: setTimeout_def same)
qed

lemma cleared_frame:
  "timerSeq (case mapGet (reconnectTimers s) cid of None \<Rightarrow> s | Some h \<Rightarrow> clearTimeout h s) = timerSeq s"
  "reconnectTimers (case mapGet (reconnectTimers s) cid of None \<Rightarrow> s | Some h \<Rightarrow> clearTimeout h s) = reconnectTimers s"
  "set (timerQueue (case mapGet (reconnectTimers s) cid of None \<Rightarrow> s | Some h \<Rightarrow> clearTimeout h s)) \<subseteq> set (timerQueue s)"
  by (auto split: option.splits simp: clearTimeout_def)


lemma pendingFor_nil_iff: "(pendingFor cid s = []) = (\<forall>t \<in> set (timerQueue s). timerClient t \<noteq> cid)"
  by (simp add: pendingFor_def filter_empty_conv)



lemma pendingFor_scheduleReconnect_other:
  assumes "c \<noteq> cid" "pendingFor cid s = []"
  shows "pendingFor cid (scheduleReconnect c a s) = []"
proof -
  let ?s1 = "case mapGet (reconnectTimers s) c of None \<Rightarrow> s | Some h \<Rightarrow> clearTimeout h s"
  have "\<forall>t \<in> set (timerQueue ?s1). timerClient t \<noteq> cid"
    using assms(2) cleared_frame(3) [of s c] unfolding pendingFor_nil_iff by blast
  then have none: "filter (\<lambda>t. timerClient t = cid) (timerQueue ?s1) = []"
    by (simp add: filter_empty_conv)
  show ?thesis
    using none assms(1) by (simp add: scheduleReconnect_unfold Let_def pendingFor_def)
qed

lemma addServer_timers:
  "timerQueue (snd (addServer tp sname cc cr s)) = timerQueue s"
  "timerSeq (snd (addServer tp sname cc cr s)) = timerSeq s"
  "reconnectTimers (snd (addServer tp sname cc cr s)) = reconnectTimers s"
  "config (snd (addServer tp sname cc cr s)) = config s"
  by (simp_all add: addServer_def Let_def newClient_def split: option.splits)

lemma reconnectClient_timers:
  "timerQueue (snd (reconnectClient cid cr s)) = timerQueue s"
  "timerSeq (snd (reconnectClient cid cr s)) = timerSeq s"
  "reconnectTimers (snd (reconnectClient cid cr s)) = reconnectTimers s"
  "config (snd (reconnectClient cid cr s)) = config s"
  by (simp_all add: reconnectClient_def Let_def newClient_def split: option.splits)

lemma transportOnError_timers:
  "timerQueue (transportOnError tp err s) = timerQueue s"
  "timerSeq (transportOnError tp err s) = timerSeq s"
  "reconnectTimers (transportOnError tp err s) = reconnectTimers s"
  "config (transportOnError tp err s) = config s"
  by (simp_all add: transportOnError_def split: Hook.splits option.splits)

lemma lifecycle_timers:
  assumes "lifecycleOf s' = lifecycleOf s"
  shows "timerQueue s' = timerQueue s" "timerSeq s' = timerSeq s"
    "reconnectTimers s' = reconnectTimers s" "config s' = config s"
  using assms by (simp_all add: lifecycleOf_def)










lemma timersOk_hooks [simp]:
  "timersOk (s\<lparr>onerrorHook := oe\<rparr>) = timersOk s"
  "timersOk (s\<lparr>oncloseHook := oc\<rparr>) = timersOk s"
  by (simp_all add: timersOk_def)








lemma maxAttempts_same: "config s' = config s \<Longrightarrow> maxAttempts s' = maxAttempts s"
  by (simp add: maxAttempts_def)




lemma pendingFor_same: "timerQueue s' = timerQueue s \<Longrightarrow> pendingFor cid s' = pendingFor cid s"
  by (simp add: pendingFor_def)

lemma pendingFor_filter:
  "pendingFor cid s = [] \<Longrightarrow> timerQueue s' = filter P (timerQueue s) \<Longrightarrow> pendingFor cid s' = []"
  by (simp add: pendingFor_def filter_empty_conv)

lemma pendingFor_query:
  "pendingFor cid (snd (listPrompts timeout remote s)) = pendingFor cid s"
  "pendingFor cid (snd (listResources timeout remote s)) = pendingFor cid s"
  "pendingFor cid (snd (listTools timeout remote s)) = pendingFor cid s"
  "pendingFor cid (snd (getPrompt promptName args timeout remote s)) = pendingFor cid s"
  "pendingFor cid (snd (readResource resourceUri timeout remote s)) = pendingFor cid s"
  "pendingFor cid (snd (callTool toolName args timeout remote s)) = pendingFor cid s"
  by (rule pendingFor_same, rule lifecycle_timers, rule query_lifecycle)+

lemma pendingFor_hooks [simp]:
  "pendingFor cid (s\<lparr>onerrorHook := oe\<rparr>) = pendingFor cid s"
  "pendingFor cid (s\<lparr>oncloseHook := oc\<rparr>) = pendingFor cid s"
  by (simp_all add: pendingFor_def)

section \<open>Attempt numbers\<close>




lemma attemptsOk_hooks [simp]:
  "attemptsOk (s\<lparr>onerrorHook := oe\<rparr>) = attemptsOk s"
  "attemptsOk (s\<lparr>oncloseHook := oc\<rparr>) = attemptsOk s"
  by (simp_all add: attemptsOk_def maxAttempts_def)









lemma transportOnClose_config: "config (transportOnClose tp s) = config s"
  by (simp add: transportOnClose_def Let_def split: Hook.splits option.splits)



lemma fireTimer_config: "config (fireTimer h cr s) = config s"
proof -
  have "config (snd (reconnectClient c cr s')) = config s'" for c s'
    by (rule reconnectClient_timers)
  then show ?thesis
    by (simp add: fireTimer_def Let_def case_prod_unfold split: option.splits)
qed

lemma runCloseCalls_config: "config (runCloseCalls tp calls s) = config s"
  by (induction tp calls s rule: runCloseCalls.induct)
     (simp_all add: transportOnClose_config transportOnError_timers)


lemma closing_config: "config (closing cid info calls cr s) = config s"
  by (simp add: closing_def Let_def runCloseCalls_config split: option.splits)

lemma removeClient_config: "config (snd (removeClient cid calls cr s)) = config s"
  by (cases "mapGet (clients s) cid")
     (simp_all add: removeClient_unknown removeClient_stages closing_config)








lemma config_exec: "config (exec a s) = config s"
proof (cases a)
  case (AddServer tp sname cc cr)
  then show ?thesis by (simp add: addServer_timers)
next
  case (ReconnectClient cid cr)
  then show ?thesis by (simp add: reconnectClient_timers)
next
  case (RemoveClient cid calls cr)
  then show ?thesis by (simp add: removeClient_config)
next
  case (ListPrompts timeout remote)
  then show ?thesis by (simp add: lifecycle_timers(4) [OF query_lifecycle(1)])
next
  case (ListResources timeout remote)
  then show ?thesis by (simp add: lifecycle_timers(4) [OF query_lifecycle(2)])
next
  case (ListTools timeout remote)
  then show ?thesis by (simp add: lifecycle_timers(4) [OF query_lifecycle(3)])
next
  case (GetPrompt promptName args timeout remote)
  then show ?thesis by (simp add: lifecycle_timers(4) [OF query_lifecycle(4)])
next
  case (ReadResource resourceUri timeout remote)
  then show ?thesis by (simp add: lifecycle_timers(4) [OF query_lifecycle(5)])
next
  case (CallTool toolName args timeout remote)
  then show ?thesis by (simp add: lifecycle_timers(4) [OF query_lifecycle(6)])
next
  case (TransportErrors tp err)
  then show ?thesis by (simp add: transportOnError_timers)
next
  case (TransportCloses tp)
  then show ?thesis by (simp add: transportOnClose_config)
next
  case (TimerFires h cr)
  then show ?thesis by (simp add: fireTimer_config)
qed simp_all

section \<open>Timers of other clients are left alone\<close>









section \<open>The countdown of attempts\<close>

lemma remaining_same:
  assumes "pendingFor cid s' = pendingFor cid s" "config s' = config s"
  shows "remaining cid s' = remaining cid s"
  using assms(1) maxAttempts_same [OF assms(2)] by (simp add: remaining_def split: list.splits)








lemma remaining_hooks [simp]:
  "remaining cid (s\<lparr>onerrorHook := oe\<rparr>) = remaining cid s"
  "remaining cid (s\<lparr>oncloseHook := oc\<rparr>) = remaining cid s"
  by (rule remaining_same; simp)+










end
